theory Spec2Isabelle
  imports Main "HOL-Library.Char_ord" "HOL-Library.List_Lexorder"
begin

section \<open>Data model\<close>

text \<open>
  The change service (\<^verbatim>\<open>src/services/changes.service.ts\<close>) and the connection manager
  (\<^verbatim>\<open>src/services/mongo.service.ts\<close>) are embedded as functions that pass an explicit
  \<open>world\<close>: the target databases, the audit collection, the connection cache, a logical
  clock and a log of the service calls made. Every awaited driver call is one round trip:
  it may fail with an error chosen by the environment (\<open>faults\<close>), and it advances the
  logical clock by one, so \<open>Date.now()\<close> and \<open>new Date()\<close> read \<open>clock\<close>.

  An index specification is the JavaScript object of the request, written as the list of
  its \<open>(field, direction)\<close> entries in \<open>Object.keys\<close> order.
\<close>

type_synonym spec = "(string \<times> int) list"

datatype pfe_value = PfeScalar | PfeObject "string list"

record index_options =
  o_name :: string
  o_unique :: "bool option"
  o_partialFilterExpression :: "(string \<times> pfe_value) list option"

datatype operation =
    CreateCollection string "(string \<times> string) list option"
  | CreateIndex string spec "index_options option"
  | UnknownOp string

record target =
  t_uri :: string
  t_database :: string

record change_request =
  q_changeId :: "string option"
  q_target :: target
  q_operation :: operation
  q_metadata :: "(string \<times> string) list option"

datatype status = Applied | Skipped | Failed | Reverted

datatype revert_plan = DropCollectionPlan string bool | DropIndexPlan string string

text \<open>
  A field that a JavaScript object may lack is an \<open>option\<close>: \<open>None\<close> is the absent field.
  \<open>revertPlan\<close> holds the local variable of \<open>applyChange\<close>, itself \<open>null\<close> (\<open>None\<close>) or a plan,
  so the field is \<open>revert_plan option option\<close>.
\<close>

record change_result =
  r_changeId :: string
  r_status :: status
  r_message :: string
  r_revertPlan :: "revert_plan option option"
  r_durationMs :: nat

record audit_record =
  a_changeId :: string
  a_target :: target
  a_operation :: operation
  a_metadata :: "(string \<times> string) list"
  a_status :: status
  a_message :: string
  a_revertPlan :: "revert_plan option option"
  a_createdAt :: nat
  a_revertedAt :: "nat option"
  a_revertMessage :: "string option"

record index =
  ix_name :: string
  ix_key :: spec

record collection =
  c_docs :: nat
  c_indexes :: "index list"

datatype client = Client string

datatype event = ApplyCalled change_request bool | RevertCalled string string "string option"

datatype exn = Error string | ZodError | SyntaxError

text \<open>
  The environment of a call: the faults the driver will raise (by clock value), the
  process environment variable \<open>ALLOW_TARGET_URI_REGEX\<close>, the regular-expression engine
  (\<open>None\<close> when the pattern does not compile), the random part of generated identifiers,
  the date parser of \<open>new Date(string)\<close>, and the number of documents that the server
  puts into a single batch of a \<open>find\<close> (101 in MongoDB unless a batch size is asked
  for; the code asks for none).
\<close>

record env =
  faults :: "nat \<Rightarrow> string option"
  ALLOW_TARGET_URI_REGEX :: "string option"
  regexp :: "string \<Rightarrow> (string \<Rightarrow> bool) option"
  randomId :: "nat \<Rightarrow> string"
  parseDate :: "string \<Rightarrow> nat option"
  firstBatch :: nat

text \<open>
  The audit collection \<open>cicd_changes_audit\<close> is the list \<open>audit\<close>, in insertion order; the
  \<open>_id\<close> of a record is its position. It is kept apart from the target collections in
  \<open>dbs\<close>, which are indexed by (connection URI, database name). \<open>connects\<close> and
  \<open>events\<close> only record what was attempted: the connections opened and the calls of
  \<open>applyChange\<close> and \<open>revertChange\<close>.
\<close>

record world =
  clock :: nat
  seed :: nat
  clientCache :: "string \<rightharpoonup> client"
  connects :: "string list"
  dbs :: "string \<times> string \<Rightarrow> string \<rightharpoonup> collection"
  audit :: "audit_record list"
  events :: "event list"

type_synonym 'a outcome = "(exn + 'a) \<times> world"

section \<open>The driver\<close>

text \<open>
  One awaited call of the MongoDB driver: the environment may fail it with a message
  (network, server, permissions); otherwise the operation runs. Either way the clock
  advances.
\<close>

definition driver :: "env \<Rightarrow> world \<Rightarrow> (world \<Rightarrow> 'a outcome) \<Rightarrow> 'a outcome" where
  "driver e w run =
     (case faults e (clock w) of
        Some m \<Rightarrow> (Inl (Error m), w\<lparr>clock := Suc (clock w)\<rparr>)
      | None \<Rightarrow> run (w\<lparr>clock := Suc (clock w)\<rparr>))"

section \<open>Connection manager\<close>

text \<open>
  \<open>getClient\<close> of \<^verbatim>\<open>mongo.service.ts\<close>. An unset or empty \<open>ALLOW_TARGET_URI_REGEX\<close> is
  falsy and skips the test. Constructing and connecting the client is one driver call;
  the handle is cached only after it has connected.
\<close>

definition allow_check :: "env \<Rightarrow> string \<Rightarrow> exn option" where
  "allow_check e u =
     (case ALLOW_TARGET_URI_REGEX e of
        None \<Rightarrow> None
      | Some allow \<Rightarrow>
          if allow = [] then None
          else (case regexp e allow of
                  None \<Rightarrow> Some SyntaxError
                | Some test \<Rightarrow>
                    if \<not> test u
                    then Some (Error ''The provided MongoDB URI does not match ALLOW_TARGET_URI_REGEX.'')
                    else None))"

definition getClient :: "env \<Rightarrow> string \<Rightarrow> world \<Rightarrow> client outcome" where
  "getClient e u w =
     (case allow_check e u of
        Some x \<Rightarrow> (Inl x, w)
      | None \<Rightarrow>
          (case clientCache w u of
             Some c \<Rightarrow> (Inr c, w)
           | None \<Rightarrow>
               driver e (w\<lparr>connects := connects w @ [u]\<rparr>)
                 (\<lambda>w'. (Inr (Client u), w'\<lparr>clientCache := (clientCache w')(u \<mapsto> Client u)\<rparr>))))"

section \<open>Request validator\<close>

text \<open>
  The zod schemas of \<^verbatim>\<open>lib/validator.ts\<close> as predicates; \<open>parse\<close> raises \<open>ZodError\<close> when
  they fail. A specification is an object, so its keys are distinct. A value of
  \<open>partialFilterExpression\<close> is either a scalar or an object, of which only the keys
  matter. \<open>UnknownOp\<close> stands for any other \<open>type\<close> tag.
\<close>

definition PartialFilterAllowedOps :: "string list" where
  "PartialFilterAllowedOps =
     [''$exists'', ''$eq'', ''$in'', ''$gt'', ''$gte'', ''$lt'', ''$lte'', ''$ne'']"

definition pfe_allowed :: "(string \<times> pfe_value) list \<Rightarrow> bool" where
  "pfe_allowed pfe =
     list_all (\<lambda>kv. case snd kv of
                       PfeObject ks \<Rightarrow> list_all (\<lambda>k. k \<in> set PartialFilterAllowedOps) ks
                     | PfeScalar \<Rightarrow> True) pfe"

fun OperationSchema :: "operation \<Rightarrow> bool" where
  "OperationSchema (CreateCollection c opts) = (c \<noteq> [])"
| "OperationSchema (CreateIndex c s opts) =
     (c \<noteq> [] \<and> s \<noteq> [] \<and> distinct (map fst s) \<and>
      (case opts of
         None \<Rightarrow> True
       | Some ops \<Rightarrow> o_name ops \<noteq> [] \<and>
           (case o_partialFilterExpression ops of None \<Rightarrow> True | Some pfe \<Rightarrow> pfe_allowed pfe)))"
| "OperationSchema (UnknownOp t) = False"

definition ChangeRequestSchema :: "change_request \<Rightarrow> bool" where
  "ChangeRequestSchema req =
     ((case q_changeId req of None \<Rightarrow> True | Some c \<Rightarrow> c \<noteq> []) \<and>
      t_uri (q_target req) \<noteq> [] \<and> t_database (q_target req) \<noteq> [] \<and>
      OperationSchema (q_operation req))"

definition ChangeRequestSchema_parse :: "change_request \<Rightarrow> exn + change_request" where
  "ChangeRequestSchema_parse req = (if ChangeRequestSchema req then Inr req else Inl ZodError)"

section \<open>Identifiers and index names\<close>

text \<open>
  \<open>newChangeId\<close> returns \<open>chg-\<close> followed by a date and random part, drawn from the
  environment. \<open>or_newChangeId\<close> is \<open>changeId || newChangeId()\<close>. \<open>index_name\<close> is
  \<open>options?.name || "idx_" + Object.keys(spec).join("_")\<close>.
\<close>

definition newChangeId :: "env \<Rightarrow> world \<Rightarrow> string \<times> world" where
  "newChangeId e w = (''chg-'' @ randomId e (seed w), w\<lparr>seed := Suc (seed w)\<rparr>)"

definition or_newChangeId :: "env \<Rightarrow> string option \<Rightarrow> world \<Rightarrow> string \<times> world" where
  "or_newChangeId e c w =
     (case c of
        None \<Rightarrow> newChangeId e w
      | Some cid \<Rightarrow> if cid = [] then newChangeId e w else (cid, w))"

fun join :: "string \<Rightarrow> string list \<Rightarrow> string" where
  "join sep [] = []"
| "join sep [x] = x"
| "join sep (x # y # ys) = x @ sep @ join sep (y # ys)"

definition index_name :: "spec \<Rightarrow> index_options option \<Rightarrow> string" where
  "index_name s opts =
     (case opts of
        None \<Rightarrow> ''idx_'' @ join ''_'' (map fst s)
      | Some ops \<Rightarrow> if o_name ops \<noteq> [] then o_name ops else ''idx_'' @ join ''_'' (map fst s))"

section \<open>Driver operations on the target and on the audit collection\<close>

text \<open>
  What the driver does when the call is not failed by the environment. A new collection
  has no documents and the index \<open>_id_\<close> on \<open>{_id: 1}\<close>. \<open>createCollection\<close> refuses an
  existing name. \<open>indexes\<close> rejects for a collection that does not exist (the server
  answers \<open>NamespaceNotFound\<close>), so \<open>applyChange\<close> answers failed for a \<open>createIndex\<close>
  on a collection that is not there yet; \<open>countDocuments\<close> of such a collection is
  zero. \<open>createIndex\<close> creates a missing collection, accepts an
  index that already exists with the same name and key, and refuses a name taken by
  another key or a key taken by another name; the stored index keeps the name and the
  key, the other options are not modelled. \<open>dropIndex\<close> refuses a missing collection,
  a missing name and \<open>_id_\<close>. \<open>dropCollection\<close> refuses a missing collection.
\<close>

definition id_index :: index where
  "id_index = \<lparr>ix_name = ''_id_'', ix_key = [(''_id'', 1)]\<rparr>"

definition new_collection :: collection where
  "new_collection = \<lparr>c_docs = 0, c_indexes = [id_index]\<rparr>"

definition put_collection :: "string \<times> string \<Rightarrow> string \<Rightarrow> collection option \<Rightarrow> world \<Rightarrow> world" where
  "put_collection k nm c w = w\<lparr>dbs := (dbs w)(k := (dbs w k)(nm := c))\<rparr>"

definition listCollections :: "env \<Rightarrow> string \<times> string \<Rightarrow> string \<Rightarrow> world \<Rightarrow> string list outcome" where
  "listCollections e k nm w =
     driver e w (\<lambda>w'. (Inr (case dbs w' k nm of None \<Rightarrow> [] | Some c \<Rightarrow> [nm]), w'))"

definition createCollection :: "env \<Rightarrow> string \<times> string \<Rightarrow> string \<Rightarrow> world \<Rightarrow> unit outcome" where
  "createCollection e k nm w =
     driver e w (\<lambda>w'. case dbs w' k nm of
                         Some c \<Rightarrow> (Inl (Error ''Collection already exists.''), w')
                       | None \<Rightarrow> (Inr (), put_collection k nm (Some new_collection) w'))"

definition indexes :: "env \<Rightarrow> string \<times> string \<Rightarrow> string \<Rightarrow> world \<Rightarrow> index list outcome" where
  "indexes e k nm w =
     driver e w (\<lambda>w'. case dbs w' k nm of
                         None \<Rightarrow> (Inl (Error ''ns does not exist''), w')
                       | Some c \<Rightarrow> (Inr (c_indexes c), w'))"

definition createIndex :: "env \<Rightarrow> string \<times> string \<Rightarrow> string \<Rightarrow> spec \<Rightarrow> string \<Rightarrow> world \<Rightarrow> unit outcome" where
  "createIndex e k nm s iname w =
     driver e w (\<lambda>w'.
       let c = (case dbs w' k nm of None \<Rightarrow> new_collection | Some c \<Rightarrow> c) in
       case find (\<lambda>i. ix_name i = iname) (c_indexes c) of
         Some i \<Rightarrow>
           if ix_key i = s then (Inr (), put_collection k nm (Some c) w')
           else (Inl (Error ''An existing index has the same name as the requested index.''), w')
       | None \<Rightarrow>
           if list_ex (\<lambda>i. ix_key i = s) (c_indexes c)
           then (Inl (Error ''Index already exists with a different name.''), w')
           else (Inr (), put_collection k nm
                   (Some (c\<lparr>c_indexes := c_indexes c @ [\<lparr>ix_name = iname, ix_key = s\<rparr>]\<rparr>)) w'))"

definition dropIndex :: "env \<Rightarrow> string \<times> string \<Rightarrow> string \<Rightarrow> string \<Rightarrow> world \<Rightarrow> unit outcome" where
  "dropIndex e k nm iname w =
     driver e w (\<lambda>w'. case dbs w' k nm of
                         None \<Rightarrow> (Inl (Error ''ns not found''), w')
                       | Some c \<Rightarrow>
                           if iname = ''_id_'' then (Inl (Error ''cannot drop _id index''), w')
                           else if list_ex (\<lambda>i. ix_name i = iname) (c_indexes c)
                           then (Inr (), put_collection k nm
                                   (Some (c\<lparr>c_indexes := filter (\<lambda>i. ix_name i \<noteq> iname) (c_indexes c)\<rparr>)) w')
                           else (Inl (Error ''index not found with name''), w'))"

definition countDocuments :: "env \<Rightarrow> string \<times> string \<Rightarrow> string \<Rightarrow> world \<Rightarrow> nat outcome" where
  "countDocuments e k nm w =
     driver e w (\<lambda>w'. (Inr (case dbs w' k nm of None \<Rightarrow> 0 | Some c \<Rightarrow> c_docs c), w'))"

definition dropCollection :: "env \<Rightarrow> string \<times> string \<Rightarrow> string \<Rightarrow> world \<Rightarrow> unit outcome" where
  "dropCollection e k nm w =
     driver e w (\<lambda>w'. case dbs w' k nm of
                         None \<Rightarrow> (Inl (Error ''ns not found''), w')
                       | Some c \<Rightarrow> (Inr (), put_collection k nm None w'))"

definition insertOne :: "env \<Rightarrow> audit_record \<Rightarrow> world \<Rightarrow> unit outcome" where
  "insertOne e r w = driver e w (\<lambda>w'. (Inr (), w'\<lparr>audit := audit w' @ [r]\<rparr>))"

section \<open>Change executor\<close>

text \<open>
  \<open>applyChange\<close> of \<^verbatim>\<open>changes.service.ts\<close>. \<open>stringify\<close> is
  \<open>String(err?.message || err)\<close>. The three local variables \<open>status\<close>, \<open>message\<close> and
  \<open>revertPlan\<close> at the end of the operation are an \<open>op_state\<close>; a \<open>throw\<close> is \<open>Inl\<close>.
\<close>

fun stringify :: "exn \<Rightarrow> string" where
  "stringify (Error m) = (if m = [] then ''Error'' else m)"
| "stringify ZodError = ''ZodError''"
| "stringify SyntaxError = ''SyntaxError''"

type_synonym op_state = "status \<times> string \<times> revert_plan option"

definition apply_createCollection ::
  "env \<Rightarrow> string \<times> string \<Rightarrow> string \<Rightarrow> bool \<Rightarrow> world \<Rightarrow> op_state outcome" where
  "apply_createCollection e k nm dryRun w =
     (case listCollections e k nm w of
        (Inl x, w1) \<Rightarrow> (Inl x, w1)
      | (Inr found, w1) \<Rightarrow>
          if length found > 0
          then (Inr (Skipped, ''Change skipped because the collection already exists.'',
                     Some (DropCollectionPlan nm True)), w1)
          else if \<not> dryRun
          then (case createCollection e k nm w1 of
                  (Inl x, w2) \<Rightarrow> (Inl x, w2)
                | (Inr u, w2) \<Rightarrow>
                    (Inr (Applied, ''Change applied successfully.'',
                          Some (DropCollectionPlan nm True)), w2))
          else (Inr (Applied, ''Change applied successfully.'',
                     Some (DropCollectionPlan nm True)), w1))"

definition apply_createIndex ::
  "env \<Rightarrow> string \<times> string \<Rightarrow> string \<Rightarrow> spec \<Rightarrow> index_options option \<Rightarrow> bool \<Rightarrow> world
     \<Rightarrow> op_state outcome" where
  "apply_createIndex e k coll s opts dryRun w =
     (let nm = index_name s opts in
      case indexes e k coll w of
        (Inl x, w1) \<Rightarrow> (Inl x, w1)
      | (Inr ixs, w1) \<Rightarrow>
          (case find (\<lambda>i. ix_name i = nm) ixs of
             Some sameName \<Rightarrow>
               if ix_key sameName = s
               then (Inr (Skipped,
                          ''Change skipped because an index with the same name and keys already exists.'',
                          Some (DropIndexPlan coll nm)), w1)
               else (Inl (Error ''An index with this name already exists but uses different keys.''), w1)
           | None \<Rightarrow>
               if \<not> dryRun
               then (case createIndex e k coll s nm w1 of
                       (Inl x, w2) \<Rightarrow> (Inl x, w2)
                     | (Inr u, w2) \<Rightarrow>
                         (Inr (Applied, ''Change applied successfully.'',
                               Some (DropIndexPlan coll nm)), w2))
               else (Inr (Applied, ''Change applied successfully.'',
                          Some (DropIndexPlan coll nm)), w1)))"

definition run_operation :: "env \<Rightarrow> change_request \<Rightarrow> bool \<Rightarrow> world \<Rightarrow> op_state outcome" where
  "run_operation e parsed dryRun w =
     (let k = (t_uri (q_target parsed), t_database (q_target parsed)) in
      case q_operation parsed of
        CreateCollection nm opts \<Rightarrow> apply_createCollection e k nm dryRun w
      | CreateIndex coll s opts \<Rightarrow> apply_createIndex e k coll s opts dryRun w
      | UnknownOp t \<Rightarrow> (Inl (Error ''Unsupported operation type for applyChange.''), w))"

definition audit_entry ::
  "string \<Rightarrow> change_request \<Rightarrow> status \<Rightarrow> string \<Rightarrow> revert_plan option option \<Rightarrow> nat \<Rightarrow> audit_record" where
  "audit_entry changeId parsed st msg plan now =
     \<lparr>a_changeId = changeId, a_target = q_target parsed, a_operation = q_operation parsed,
      a_metadata = (case q_metadata parsed of None \<Rightarrow> [] | Some m \<Rightarrow> m),
      a_status = st, a_message = msg, a_revertPlan = plan, a_createdAt = now,
      a_revertedAt = None, a_revertMessage = None\<rparr>"

definition apply_catch ::
  "env \<Rightarrow> nat \<Rightarrow> string \<Rightarrow> change_request \<Rightarrow> bool \<Rightarrow> exn \<Rightarrow> world \<Rightarrow> change_result outcome" where
  "apply_catch e t0 changeId parsed dryRun err w =
     (let errorMessage = stringify err in
      if \<not> dryRun
      then (case insertOne e (audit_entry changeId parsed Failed errorMessage None (clock w)) w of
              (Inl x, w') \<Rightarrow> (Inl x, w')
            | (Inr u, w') \<Rightarrow>
                (Inr \<lparr>r_changeId = changeId, r_status = Failed, r_message = errorMessage,
                      r_revertPlan = None, r_durationMs = clock w' - t0\<rparr>, w'))
      else (Inr \<lparr>r_changeId = changeId, r_status = Failed, r_message = errorMessage,
                 r_revertPlan = None, r_durationMs = clock w - t0\<rparr>, w))"

definition apply_body ::
  "env \<Rightarrow> nat \<Rightarrow> string \<Rightarrow> change_request \<Rightarrow> bool \<Rightarrow> world \<Rightarrow> change_result outcome" where
  "apply_body e t0 changeId parsed dryRun w =
     (case run_operation e parsed dryRun w of
        (Inl err, w1) \<Rightarrow> apply_catch e t0 changeId parsed dryRun err w1
      | (Inr (st, msg, plan), w1) \<Rightarrow>
          if \<not> dryRun
          then (case insertOne e (audit_entry changeId parsed st msg (Some plan) (clock w1)) w1 of
                  (Inl err, w2) \<Rightarrow> apply_catch e t0 changeId parsed dryRun err w2
                | (Inr u, w2) \<Rightarrow>
                    (Inr \<lparr>r_changeId = changeId, r_status = st, r_message = msg,
                          r_revertPlan = Some plan, r_durationMs = clock w2 - t0\<rparr>, w2))
          else (Inr \<lparr>r_changeId = changeId, r_status = st, r_message = msg,
                     r_revertPlan = Some plan, r_durationMs = clock w1 - t0\<rparr>, w1))"

text \<open>
  \<open>apply_prelude\<close> is \<open>applyChange\<close> up to the \<open>try\<close> (validation, change identifier,
  connection): an exception raised there reaches the caller. \<open>apply_body\<close> is the \<open>try\<close>
  block with its \<open>catch\<close>.
\<close>

definition apply_prelude ::
  "env \<Rightarrow> change_request \<Rightarrow> bool \<Rightarrow> world \<Rightarrow> (change_request \<times> string) outcome" where
  "apply_prelude e req dryRun w0 =
     (let w = w0\<lparr>events := events w0 @ [ApplyCalled req dryRun]\<rparr> in
      case ChangeRequestSchema_parse req of
        Inl x \<Rightarrow> (Inl x, w)
      | Inr parsed \<Rightarrow>
          (case or_newChangeId e (q_changeId parsed) w of
             (changeId, w1) \<Rightarrow>
               (case getClient e (t_uri (q_target parsed)) w1 of
                  (Inl x, w2) \<Rightarrow> (Inl x, w2)
                | (Inr cl, w2) \<Rightarrow> (Inr (parsed, changeId), w2))))"

definition applyChange :: "env \<Rightarrow> change_request \<Rightarrow> bool \<Rightarrow> world \<Rightarrow> change_result outcome" where
  "applyChange e req dryRun w =
     (let t0 = clock w in
      case apply_prelude e req dryRun w of
        (Inl x, w1) \<Rightarrow> (Inl x, w1)
      | (Inr (parsed, changeId), w1) \<Rightarrow> apply_body e t0 changeId parsed dryRun w1)"

section \<open>Audit store access used by the revert engine\<close>

text \<open>
  \<open>find({changeId, "target.uri"}).sort({createdAt: -1}).limit(1).next()\<close>: the matching
  records, each with its position, newest first; among records of equal \<open>createdAt\<close> the
  one inserted last comes first.
\<close>

definition sort_desc :: "('a \<Rightarrow> nat) \<Rightarrow> 'a list \<Rightarrow> 'a list" where
  "sort_desc f xs = rev (sort_key f xs)"

definition latest_entry :: "string \<Rightarrow> string \<Rightarrow> audit_record list \<Rightarrow> (nat \<times> audit_record) option" where
  "latest_entry changeId u recs =
     (case sort_desc (\<lambda>x. a_createdAt (snd x))
             (filter (\<lambda>x. a_changeId (snd x) = changeId \<and> t_uri (a_target (snd x)) = u)
                (enumerate 0 recs)) of
        [] \<Rightarrow> None
      | x # xs \<Rightarrow> Some x)"

definition find_latest ::
  "env \<Rightarrow> string \<Rightarrow> string \<Rightarrow> world \<Rightarrow> (nat \<times> audit_record) option outcome" where
  "find_latest e changeId u w =
     driver e w (\<lambda>w'. (Inr (latest_entry changeId u (audit w')), w'))"

definition updateOne :: "env \<Rightarrow> nat \<Rightarrow> nat \<Rightarrow> string \<Rightarrow> world \<Rightarrow> unit outcome" where
  "updateOne e i now msg w =
     driver e w (\<lambda>w'.
       (Inr (),
        if i < length (audit w')
        then w'\<lparr>audit := (audit w')[i := (audit w' ! i)
                   \<lparr>a_status := Reverted, a_revertedAt := Some now, a_revertMessage := Some msg\<rparr>]\<rparr>
        else w'))"

section \<open>Revert engine\<close>

text \<open>
  \<open>revertChange\<close>. \<open>acting_database\<close> is \<open>db || client.db(rec.target.database)\<close>, where
  an absent or empty \<open>ctx.database\<close> is falsy. \<open>countDocuments\<close> is called outside the
  \<open>try\<close>; the drop and the update of the audit record are inside it.
\<close>

record revert_result =
  v_changeId :: string
  v_status :: status
  v_message :: string
  v_change :: "change_request option"

definition revert_createIndex ::
  "env \<Rightarrow> string \<times> string \<Rightarrow> string \<Rightarrow> string \<Rightarrow> nat \<Rightarrow> string \<Rightarrow> change_request \<Rightarrow> world
     \<Rightarrow> revert_result outcome" where
  "revert_createIndex e k coll nm i changeId changeRecord w =
     (case dropIndex e k coll nm w of
        (Inl err, w1) \<Rightarrow>
          (Inr \<lparr>v_changeId = changeId, v_status = Failed,
                v_message = ''Failed to drop index: '' @ stringify err,
                v_change = Some changeRecord\<rparr>, w1)
      | (Inr u, w1) \<Rightarrow>
          (case updateOne e i (clock w1) ''Index dropped successfully.'' w1 of
             (Inl err, w2) \<Rightarrow>
               (Inr \<lparr>v_changeId = changeId, v_status = Failed,
                     v_message = ''Failed to drop index: '' @ stringify err,
                     v_change = Some changeRecord\<rparr>, w2)
           | (Inr u', w2) \<Rightarrow>
               (Inr \<lparr>v_changeId = changeId, v_status = Reverted,
                     v_message = ''Index dropped successfully.'',
                     v_change = Some changeRecord\<rparr>, w2)))"

definition revert_createCollection ::
  "env \<Rightarrow> string \<times> string \<Rightarrow> string \<Rightarrow> nat \<Rightarrow> string \<Rightarrow> change_request \<Rightarrow> world
     \<Rightarrow> revert_result outcome" where
  "revert_createCollection e k coll i changeId changeRecord w =
     (case countDocuments e k coll w of
        (Inl x, w1) \<Rightarrow> (Inl x, w1)
      | (Inr count, w1) \<Rightarrow>
          if count > 0
          then (Inr \<lparr>v_changeId = changeId, v_status = Failed,
                     v_message = ''Cannot drop the collection because it is not empty.'',
                     v_change = Some changeRecord\<rparr>, w1)
          else (case dropCollection e k coll w1 of
                  (Inl err, w2) \<Rightarrow>
                    (Inr \<lparr>v_changeId = changeId, v_status = Failed,
                          v_message = ''Failed to drop collection: '' @ stringify err,
                          v_change = Some changeRecord\<rparr>, w2)
                | (Inr u, w2) \<Rightarrow>
                    (case updateOne e i (clock w2) ''Collection dropped successfully.'' w2 of
                       (Inl err, w3) \<Rightarrow>
                         (Inr \<lparr>v_changeId = changeId, v_status = Failed,
                               v_message = ''Failed to drop collection: '' @ stringify err,
                               v_change = Some changeRecord\<rparr>, w3)
                     | (Inr u', w3) \<Rightarrow>
                         (Inr \<lparr>v_changeId = changeId, v_status = Reverted,
                               v_message = ''Collection dropped successfully.'',
                               v_change = Some changeRecord\<rparr>, w3))))"

definition acting_database :: "string option \<Rightarrow> audit_record \<Rightarrow> string" where
  "acting_database database rec =
     (case database of
        None \<Rightarrow> t_database (a_target rec)
      | Some d \<Rightarrow> if d = [] then t_database (a_target rec) else d)"

definition revert_record ::
  "env \<Rightarrow> string \<Rightarrow> string \<Rightarrow> string option \<Rightarrow> nat \<Rightarrow> audit_record \<Rightarrow> world \<Rightarrow> revert_result outcome" where
  "revert_record e changeId u database i rec w =
     (let k = (u, acting_database database rec);
          changeRecord = \<lparr>q_changeId = Some (a_changeId rec), q_target = a_target rec,
                          q_operation = a_operation rec, q_metadata = Some (a_metadata rec)\<rparr>
      in case a_operation rec of
           CreateIndex coll s opts \<Rightarrow>
             revert_createIndex e k coll (index_name s opts) i changeId changeRecord w
         | CreateCollection coll opts \<Rightarrow>
             revert_createCollection e k coll i changeId changeRecord w
         | UnknownOp t \<Rightarrow>
             (Inr \<lparr>v_changeId = changeId, v_status = Failed,
                   v_message = ''Unsupported operation type for revertChange.'',
                   v_change = Some changeRecord\<rparr>, w))"

definition revertChange ::
  "env \<Rightarrow> string \<Rightarrow> string \<Rightarrow> string option \<Rightarrow> world \<Rightarrow> revert_result outcome" where
  "revertChange e changeId u database w0 =
     (let w = w0\<lparr>events := events w0 @ [RevertCalled changeId u database]\<rparr> in
      case getClient e u w of
        (Inl x, w1) \<Rightarrow> (Inl x, w1)
      | (Inr cl, w1) \<Rightarrow>
          (case find_latest e changeId u w1 of
             (Inl x, w2) \<Rightarrow> (Inl x, w2)
           | (Inr None, w2) \<Rightarrow>
               (Inr \<lparr>v_changeId = changeId, v_status = Failed,
                     v_message = ''No audit entry was found for the requested changeId.'',
                     v_change = None\<rparr>, w2)
           | (Inr (Some (i, rec)), w2) \<Rightarrow> revert_record e changeId u database i rec w2))"

section \<open>Batch orchestrator\<close>

text \<open>
  \<open>applyBatch\<close>: \<open>batch_loop\<close> is the \<open>for\<close> loop with its index \<open>i\<close> and its two
  arrays, \<open>rollback\<close> the inner loop over \<open>applied\<close> from the last entry to the first,
  given the reversed list; whatever a compensation returns or throws is dropped.
\<close>

record batch_options =
  bo_stopOnError :: "bool option"
  bo_dryRun :: "bool option"

datatype batch_status = BatchOk | RolledBack

record batch_result =
  b_status :: batch_status
  b_failedAt :: "nat option"
  b_results :: "change_result list"

fun rollback :: "env \<Rightarrow> (string \<times> target) list \<Rightarrow> world \<Rightarrow> world" where
  "rollback e [] w = w"
| "rollback e (a # as) w =
     rollback e as (snd (revertChange e (fst a) (t_uri (snd a)) (Some (t_database (snd a))) w))"

definition assign_changeId :: "env \<Rightarrow> change_request \<Rightarrow> world \<Rightarrow> change_request \<times> world" where
  "assign_changeId e c w =
     (case or_newChangeId e (q_changeId c) w of (cid, w1) \<Rightarrow> (c\<lparr>q_changeId := Some cid\<rparr>, w1))"

fun batch_loop ::
  "env \<Rightarrow> bool \<Rightarrow> bool \<Rightarrow> change_request list \<Rightarrow> nat \<Rightarrow> change_result list \<Rightarrow> (string \<times> target) list
     \<Rightarrow> world \<Rightarrow> batch_result outcome" where
  "batch_loop e stop dry [] i results applied w =
     (Inr \<lparr>b_status = BatchOk, b_failedAt = None, b_results = results\<rparr>, w)"
| "batch_loop e stop dry (ch # rest) i results applied w =
     (case assign_changeId e ch w of
        (c, w1) \<Rightarrow>
          (case applyChange e c dry w1 of
             (Inl x, w2) \<Rightarrow> (Inl x, w2)
           | (Inr res, w2) \<Rightarrow>
               if r_status res = Failed \<and> stop \<and> \<not> dry
               then (Inr \<lparr>b_status = RolledBack, b_failedAt = Some i,
                          b_results = results @ [res]\<rparr>,
                     rollback e (rev applied) w2)
               else batch_loop e stop dry rest (Suc i) (results @ [res])
                      (if r_status res = Applied \<and> \<not> dry
                       then applied @ [(r_changeId res, q_target ch)] else applied) w2))"

definition applyBatch :: "env \<Rightarrow> change_request list \<Rightarrow> batch_options \<Rightarrow> world \<Rightarrow> batch_result outcome" where
  "applyBatch e changes opts w =
     batch_loop e (bo_stopOnError opts \<noteq> Some False) (bo_dryRun opts = Some True) changes 0 [] [] w"

section \<open>Reading the log of service calls\<close>

text \<open>
  The calls of the revert engine and of the change executor recorded in \<open>events\<close>, in
  order; the candidates for compensation that a list of results gives rise to (one entry
  for each result with status applied, with the target of the request at the same
  position), and the call of the revert engine that \<open>applyBatch\<close> makes for an entry.
\<close>

fun revert_calls :: "event list \<Rightarrow> (string \<times> string \<times> string option) list" where
  "revert_calls [] = []"
| "revert_calls (RevertCalled cid u db # es) = (cid, u, db) # revert_calls es"
| "revert_calls (ApplyCalled c d # es) = revert_calls es"

fun apply_calls :: "event list \<Rightarrow> (target \<times> operation) list" where
  "apply_calls [] = []"
| "apply_calls (ApplyCalled c d # es) = (q_target c, q_operation c) # apply_calls es"
| "apply_calls (RevertCalled cid u db # es) = apply_calls es"

definition applied_of :: "change_request list \<Rightarrow> change_result list \<Rightarrow> (string \<times> target) list" where
  "applied_of chs rs =
     map (\<lambda>cr. (r_changeId (snd cr), q_target (fst cr)))
       (filter (\<lambda>cr. r_status (snd cr) = Applied) (zip chs rs))"

definition entry_call :: "string \<times> target \<Rightarrow> string \<times> string \<times> string option" where
  "entry_call a = (fst a, t_uri (snd a), Some (t_database (snd a)))"

section \<open>Listing the audit store\<close>

text \<open>
  \<open>listChanges\<close>. The status filter is a JavaScript string, here the list of its UTF-16
  code units (\<open>js\<close> gives the code units of an ASCII literal): it is split at commas,
  each part is trimmed as \<open>String.prototype.trim\<close> does (white space and line
  terminators of ECMAScript, U+00A0 and U+FEFF among them) and the empty parts are
  dropped. \<open>limit\<close> and \<open>skip\<close> are JavaScript numbers, here integers, \<open>None\<close> standing
  for \<open>undefined\<close> and \<open>NaN\<close>; zero is falsy. \<open>Math.min(limit, 500)\<close> bounds the limit
  from above only. The cursor takes a limit of zero as no limit and a negative limit as
  its absolute value, answered in a single batch; the server refuses a negative skip.
  \<open>parseDate\<close> returns \<open>None\<close> for an invalid date. The page and the count are two
  driver calls.
\<close>

record list_query =
  lq_status :: "nat list option"
  lq_since :: "string option"
  lq_limit :: "int option"
  lq_skip :: "int option"

record list_page =
  p_total :: nat
  p_items :: "audit_record list"

definition js :: "string \<Rightarrow> nat list" where
  "js s = map of_char s"

fun status_str :: "status \<Rightarrow> string" where
  "status_str Applied = ''applied''"
| "status_str Skipped = ''skipped''"
| "status_str Failed = ''failed''"
| "status_str Reverted = ''reverted''"

definition is_space :: "nat \<Rightarrow> bool" where
  "is_space c =
     (c \<in> set [0x09, 0x0A, 0x0B, 0x0C, 0x0D, 0x20, 0xA0, 0x1680, 0x2028, 0x2029, 0x202F,
               0x205F, 0x3000, 0xFEFF] \<or>
      (0x2000 \<le> c \<and> c \<le> 0x200A))"

definition trim :: "nat list \<Rightarrow> nat list" where
  "trim s = rev (dropWhile is_space (rev (dropWhile is_space s)))"

fun split :: "'a \<Rightarrow> 'a list \<Rightarrow> 'a list list" where
  "split c [] = [] # []"
| "split c (x # xs) =
     (if x = c then [] # split c xs
      else (case split c xs of [] \<Rightarrow> [x] # [] | y # ys \<Rightarrow> (x # y) # ys))"

definition status_list :: "nat list \<Rightarrow> nat list list" where
  "status_list st = filter (\<lambda>s. s \<noteq> []) (map trim (split 0x2C st))"

definition query_filter :: "env \<Rightarrow> string \<Rightarrow> list_query \<Rightarrow> audit_record \<Rightarrow> bool" where
  "query_filter e u q r =
     (t_uri (a_target r) = u \<and>
      (case lq_status q of
         None \<Rightarrow> a_status r \<noteq> Reverted
       | Some st \<Rightarrow> if st \<noteq> [] then js (status_str (a_status r)) \<in> set (status_list st)
                    else a_status r \<noteq> Reverted) \<and>
      (case lq_since q of
         None \<Rightarrow> True
       | Some s \<Rightarrow> if s \<noteq> []
                   then (case parseDate e s of None \<Rightarrow> True | Some d \<Rightarrow> d \<le> a_createdAt r)
                   else True))"

definition cursor_limit :: "env \<Rightarrow> int \<Rightarrow> 'a list \<Rightarrow> 'a list" where
  "cursor_limit e n xs =
     (if n = 0 then xs
      else if 0 < n then take (nat n) xs
      else take (min (nat (- n)) (firstBatch e)) xs)"

definition find_page ::
  "env \<Rightarrow> (audit_record \<Rightarrow> bool) \<Rightarrow> int \<Rightarrow> int \<Rightarrow> world \<Rightarrow> audit_record list outcome" where
  "find_page e flt sk lim w =
     driver e w (\<lambda>w'.
       if sk < 0 then (Inl (Error ''skip value must be non-negative''), w')
       else (Inr (cursor_limit e lim
                    (drop (nat sk) (sort_desc a_createdAt (filter flt (audit w'))))), w'))"

definition count_matching :: "env \<Rightarrow> (audit_record \<Rightarrow> bool) \<Rightarrow> world \<Rightarrow> nat outcome" where
  "count_matching e flt w = driver e w (\<lambda>w'. (Inr (length (filter flt (audit w'))), w'))"

definition listChanges :: "env \<Rightarrow> string \<Rightarrow> list_query \<Rightarrow> world \<Rightarrow> list_page outcome" where
  "listChanges e u q w =
     (case getClient e u w of
        (Inl x, w1) \<Rightarrow> (Inl x, w1)
      | (Inr cl, w1) \<Rightarrow>
          (let flt = query_filter e u q;
               lim = min (case lq_limit q of None \<Rightarrow> 100 | Some n \<Rightarrow> if n = 0 then 100 else n) 500;
               sk = (case lq_skip q of None \<Rightarrow> 0 | Some n \<Rightarrow> n)
           in case find_page e flt sk lim w1 of
                (Inl x, w2) \<Rightarrow> (Inl x, w2)
              | (Inr items, w2) \<Rightarrow>
                  (case count_matching e flt w2 of
                     (Inl x, w3) \<Rightarrow> (Inl x, w3)
                   | (Inr cnt, w3) \<Rightarrow> (Inr \<lparr>p_total = cnt, p_items = items\<rparr>, w3))))"

section \<open>The index name as the specification words it\<close>

text \<open>
  Following the specification's words, not the code: the derived name is \<open>idx_\<close> followed
  by the field names in sorted order, joined by \<open>_\<close>.
\<close>

definition sorted_index_name :: "spec \<Rightarrow> string" where
  "sorted_index_name s = ''idx_'' @ join ''_'' (sort (map fst s))"

section \<open>Concrete scenarios\<close>

text \<open>
  A fault-free environment whose pattern engine matches a pattern as a prefix of the URI,
  and the world before anything has happened.
\<close>

definition quiet_env :: env where
  "quiet_env = \<lparr>faults = (\<lambda>t. None), ALLOW_TARGET_URI_REGEX = None,
                 regexp = (\<lambda>p. Some (\<lambda>u. take (length p) u = p)),
                 randomId = (\<lambda>n. ''20240101-'' @ replicate (Suc n) CHR ''a''),
                 parseDate = (\<lambda>s. None), firstBatch = 101\<rparr>"

definition empty_world :: world where
  "empty_world = \<lparr>clock = 0, seed = 0, clientCache = Map.empty, connects = [],
                   dbs = (\<lambda>k. Map.empty), audit = [], events = []\<rparr>"

text \<open>
  The target of the specification's scenario, with a connection already cached and a
  collection \<open>users\<close> of two documents; the scenario's own request, a request for a
  collection that exists, and a request whose index name is taken by another key.
  \<open>down_env\<close> fails every driver call, \<open>glitch_env\<close> only the first.
\<close>

definition target_D :: target where
  "target_D = \<lparr>t_uri = ''mongodb://x'', t_database = ''D''\<rparr>"

definition users_world :: world where
  "users_world =
     empty_world\<lparr>clientCache := [''mongodb://x'' \<mapsto> Client ''mongodb://x''],
                 dbs := (\<lambda>k. Map.empty)((''mongodb://x'', ''D'') :=
                          [''users'' \<mapsto> \<lparr>c_docs = 2, c_indexes = [id_index]\<rparr>])\<rparr>"

definition ix_email_request :: change_request where
  "ix_email_request =
     \<lparr>q_changeId = Some ''chg-1'', q_target = target_D,
      q_operation = CreateIndex ''users'' [(''email'', 1)]
                      (Some \<lparr>o_name = ''ix_email'', o_unique = None, o_partialFilterExpression = None\<rparr>),
      q_metadata = None\<rparr>"

definition users_request :: change_request where
  "users_request =
     \<lparr>q_changeId = Some ''chg-2'', q_target = target_D,
      q_operation = CreateCollection ''users'' None, q_metadata = None\<rparr>"

definition clash_request :: change_request where
  "clash_request =
     \<lparr>q_changeId = Some ''chg-3'', q_target = target_D,
      q_operation = CreateIndex ''users'' [(''email'', 1)]
                      (Some \<lparr>o_name = ''_id_'', o_unique = None, o_partialFilterExpression = None\<rparr>),
      q_metadata = None\<rparr>"

definition ba_request :: change_request where
  "ba_request =
     \<lparr>q_changeId = Some ''chg-4'', q_target = target_D,
      q_operation = CreateIndex ''users'' [(''b'', 1), (''a'', 1)] None, q_metadata = None\<rparr>"

text \<open>
  A later world: \<open>users\<close> (two documents) and \<open>orders\<close> (empty) both exist, each with
  the audit record of the change that created it.
\<close>

definition orders_world :: world where
  "orders_world =
     users_world\<lparr>clock := 5,
       dbs := (\<lambda>k. Map.empty)((''mongodb://x'', ''D'') :=
                [''users'' \<mapsto> \<lparr>c_docs = 2, c_indexes = [id_index]\<rparr>,
                 ''orders'' \<mapsto> \<lparr>c_docs = 0, c_indexes = [id_index]\<rparr>]),
       audit := [audit_entry ''chg-2'' users_request Applied ''Change applied successfully.''
                   (Some (Some (DropCollectionPlan ''users'' True))) 1,
                 audit_entry ''chg-5''
                   (users_request\<lparr>q_operation := CreateCollection ''orders'' None\<rparr>)
                   Applied ''Change applied successfully.''
                   (Some (Some (DropCollectionPlan ''orders'' True))) 3]\<rparr>"

text \<open>
  Requests for two collections that do not exist yet, the options of a batch as
  \<open>applyBatch\<close> defaults them, a world whose audit collection holds a skipped, a reverted
  and a failed record, and the empty query.
\<close>

definition orders_request :: change_request where
  "orders_request = users_request\<lparr>q_changeId := Some ''chg-5'',
                                   q_operation := CreateCollection ''orders'' None\<rparr>"

definition later_request :: change_request where
  "later_request = users_request\<lparr>q_changeId := Some ''chg-6'',
                                  q_operation := CreateCollection ''later'' None\<rparr>"

definition default_options :: batch_options where
  "default_options = \<lparr>bo_stopOnError = None, bo_dryRun = None\<rparr>"

definition history_world :: world where
  "history_world =
     users_world\<lparr>clock := 9,
       audit := [audit_entry ''chg-2'' users_request Skipped
                   ''Change skipped because the collection already exists.''
                   (Some (Some (DropCollectionPlan ''users'' True))) 1,
                 (audit_entry ''chg-1'' ix_email_request Applied ''Change applied successfully.''
                   (Some (Some (DropIndexPlan ''users'' ''ix_email''))) 3)
                   \<lparr>a_status := Reverted, a_revertedAt := Some 6,
                    a_revertMessage := Some ''Index dropped successfully.''\<rparr>,
                 audit_entry ''chg-3'' clash_request Failed
                   ''An index with this name already exists but uses different keys.'' None 7]\<rparr>"

definition no_query :: list_query where
  "no_query = \<lparr>lq_status = None, lq_since = None, lq_limit = None, lq_skip = None\<rparr>"

text \<open>
  A world in which the empty collection \<open>legacy\<close> exists already, and two requests of
  one batch that carry the same change identifier: one for a new collection, one for
  \<open>legacy\<close>.
\<close>

definition legacy_world :: world where
  "legacy_world =
     users_world\<lparr>dbs := (\<lambda>k. Map.empty)((''mongodb://x'', ''D'') :=
                   [''users'' \<mapsto> \<lparr>c_docs = 2, c_indexes = [id_index]\<rparr>,
                    ''legacy'' \<mapsto> \<lparr>c_docs = 0, c_indexes = [id_index]\<rparr>])\<rparr>"

definition fresh_request :: change_request where
  "fresh_request = users_request\<lparr>q_changeId := Some ''dup'',
                                  q_operation := CreateCollection ''fresh'' None\<rparr>"

definition legacy_request :: change_request where
  "legacy_request = users_request\<lparr>q_changeId := Some ''dup'',
                                   q_operation := CreateCollection ''legacy'' None\<rparr>"



definition down_env :: env where
  "down_env = quiet_env\<lparr>faults := (\<lambda>t. Some ''connection lost'')\<rparr>"

definition glitch_env :: env where
  "glitch_env = quiet_env\<lparr>faults := (\<lambda>t. if t = 0 then Some ''boom'' else None)\<rparr>"

section \<open>Evaluation rules\<close>

lemmas scenario_defs = quiet_env_def empty_world_def target_D_def users_world_def
  ix_email_request_def users_request_def clash_request_def id_index_def new_collection_def

lemmas exec_defs = applyChange_def apply_prelude_def apply_body_def apply_catch_def
  run_operation_def apply_createCollection_def apply_createIndex_def
  ChangeRequestSchema_parse_def ChangeRequestSchema_def or_newChangeId_def newChangeId_def
  getClient_def allow_check_def driver_def listCollections_def createCollection_def
  indexes_def createIndex_def insertOne_def put_collection_def audit_entry_def index_name_def
  pfe_allowed_def Let_def

lemmas revert_defs = revertChange_def revert_record_def revert_createCollection_def
  revert_createIndex_def acting_database_def find_latest_def latest_entry_def sort_desc_def
  countDocuments_def dropCollection_def dropIndex_def updateOne_def

lemmas batch_defs = applyBatch_def assign_changeId_def default_options_def
  orders_request_def later_request_def

lemmas run_defs = exec_defs revert_defs batch_defs scenario_defs

lemmas list_defs = listChanges_def find_page_def count_matching_def query_filter_def
  cursor_limit_def sort_desc_def status_list_def trim_def is_space_def js_def

section \<open>Effects of the driver operations and of the change executor\<close>

lemma getClient_frame:
  "getClient e u w = (r, w') \<Longrightarrow>
     dbs w' = dbs w \<and> audit w' = audit w \<and> events w' = events w \<and> seed w' = seed w \<and> clock w \<le> clock w'"
  by (auto simp: getClient_def driver_def split: option.splits)

lemma listCollections_frame:
  "listCollections e k nm w = (r, w') \<Longrightarrow> w' = w\<lparr>clock := Suc (clock w)\<rparr>"
  by (auto simp: listCollections_def driver_def split: option.splits)

lemma indexes_frame:
  "indexes e k nm w = (r, w') \<Longrightarrow> w' = w\<lparr>clock := Suc (clock w)\<rparr>"
  by (auto simp: indexes_def driver_def split: option.splits)

lemma countDocuments_frame:
  "countDocuments e k nm w = (r, w') \<Longrightarrow> w' = w\<lparr>clock := Suc (clock w)\<rparr>"
  by (auto simp: countDocuments_def driver_def split: option.splits)

lemma createCollection_frame:
  "createCollection e k nm w = (r, w') \<Longrightarrow>
     audit w' = audit w \<and> events w' = events w \<and> clock w' = Suc (clock w)"
  by (auto simp: createCollection_def driver_def put_collection_def split: option.splits)

lemma createIndex_frame:
  "createIndex e k nm s iname w = (r, w') \<Longrightarrow>
     audit w' = audit w \<and> events w' = events w \<and> clock w' = Suc (clock w)"
  by (auto simp: createIndex_def driver_def put_collection_def Let_def split: option.splits if_splits)

lemma insertOne_cases:
  "insertOne e a w = (r, w') \<Longrightarrow>
     (\<exists>m. faults e (clock w) = Some m \<and> r = Inl (Error m) \<and> w' = w\<lparr>clock := Suc (clock w)\<rparr>) \<or>
     (faults e (clock w) = None \<and> r = Inr () \<and> w' = w\<lparr>clock := Suc (clock w), audit := audit w @ [a]\<rparr>)"
  by (auto simp: insertOne_def driver_def split: option.splits)

lemma apply_createCollection_frame:
  "apply_createCollection e k nm d w = (r, w') \<Longrightarrow>
     audit w' = audit w \<and> events w' = events w \<and> clock w < clock w' \<and> (d \<longrightarrow> dbs w' = dbs w)"
  unfolding apply_createCollection_def
  by (auto split: prod.splits sum.splits if_splits dest!: listCollections_frame createCollection_frame)

lemma apply_createIndex_frame:
  "apply_createIndex e k c s opts d w = (r, w') \<Longrightarrow>
     audit w' = audit w \<and> events w' = events w \<and> clock w < clock w' \<and> (d \<longrightarrow> dbs w' = dbs w)"
  unfolding apply_createIndex_def Let_def
  by (auto split: prod.splits sum.splits if_splits option.splits dest!: indexes_frame createIndex_frame)

lemma run_operation_frame:
  "run_operation e p d w = (r, w') \<Longrightarrow>
     audit w' = audit w \<and> events w' = events w \<and> clock w \<le> clock w' \<and> (d \<longrightarrow> dbs w' = dbs w)"
  unfolding run_operation_def Let_def
  by (auto split: operation.splits dest!: apply_createCollection_frame apply_createIndex_frame)

lemma run_operation_result:
  "run_operation e p d w = (Inr (st, msg, plan), w') \<Longrightarrow>
     (st = Applied \<or> st = Skipped) \<and> (\<exists>pl. plan = Some pl) \<and> msg \<noteq> []"
  unfolding run_operation_def Let_def apply_createCollection_def apply_createIndex_def
  by (auto split: operation.splits prod.splits sum.splits if_splits option.splits)

lemma run_operation_error:
  "run_operation e p d w = (Inl x, w') \<Longrightarrow> \<exists>m. x = Error m"
  unfolding run_operation_def Let_def apply_createCollection_def apply_createIndex_def
  by (auto simp: listCollections_def createCollection_def indexes_def createIndex_def driver_def
      split: operation.splits prod.splits sum.splits if_splits option.splits)

lemma stringify_nonempty: "stringify x \<noteq> []"
  by (cases x) auto

lemma apply_catch_dry [simp]:
  "apply_catch e t0 cid p True err w =
     (Inr \<lparr>r_changeId = cid, r_status = Failed, r_message = stringify err,
           r_revertPlan = None, r_durationMs = clock w - t0\<rparr>, w)"
  by (simp add: apply_catch_def)

lemma apply_catch_real:
  "apply_catch e t0 cid p False err w = (res, w') \<Longrightarrow>
     (\<exists>m. faults e (clock w) = Some m \<and> res = Inl (Error m) \<and> w' = w\<lparr>clock := Suc (clock w)\<rparr>) \<or>
     (faults e (clock w) = None \<and>
      res = Inr \<lparr>r_changeId = cid, r_status = Failed, r_message = stringify err,
                 r_revertPlan = None, r_durationMs = Suc (clock w) - t0\<rparr> \<and>
      w' = w\<lparr>clock := Suc (clock w),
              audit := audit w @ [audit_entry cid p Failed (stringify err) None (clock w)]\<rparr>)"
  unfolding apply_catch_def Let_def
  by (auto split: prod.splits sum.splits dest!: insertOne_cases)

text \<open>What the try block with its handler returns, in one statement.\<close>

lemma apply_body_summary:
  assumes "apply_body e t0 cid p d w = (res, w')"
  shows "events w' = events w \<and> clock w \<le> clock w' \<and>
         (d \<longrightarrow> dbs w' = dbs w \<and> audit w' = audit w \<and> (\<exists>r. res = Inr r)) \<and>
         (case res of
            Inl x \<Rightarrow> audit w' = audit w \<and> (\<exists>m. x = Error m \<and> faults e (clock w' - 1) = Some m)
          | Inr r \<Rightarrow>
              r_changeId r = cid \<and> r_status r \<noteq> Reverted \<and> r_durationMs r = clock w' - t0 \<and>
              r_message r \<noteq> [] \<and>
              (r_status r = Failed \<longrightarrow> r_revertPlan r = None) \<and>
              (r_status r \<noteq> Failed \<longrightarrow> (\<exists>pl. r_revertPlan r = Some (Some pl))) \<and>
              (\<not> d \<longrightarrow> (\<exists>a. audit w' = audit w @ [a] \<and> a_changeId a = cid \<and>
                               a_status a = r_status r \<and> a_message a = r_message r \<and>
                               a_revertPlan a = r_revertPlan r \<and>
                               a_target a = q_target p \<and> a_operation a = q_operation p)))"
proof (cases "run_operation e p d w")
  case (Pair ro w1)
  note fr = run_operation_frame [OF Pair]
  show ?thesis
  proof (cases ro)
    case (Inl err)
    show ?thesis
    proof (cases d)
      case True
      with assms Pair Inl fr show ?thesis by (auto simp: apply_body_def stringify_nonempty)
    next
      case False
      with assms Pair Inl have "apply_catch e t0 cid p False err w1 = (res, w')"
        by (simp add: apply_body_def)
      from apply_catch_real [OF this] fr False show ?thesis
        by (auto simp: audit_entry_def stringify_nonempty)
    qed
  next
    case (Inr tr)
    obtain st msg plan where tr: "tr = (st, msg, plan)" by (cases tr) auto
    from run_operation_result [OF Pair [unfolded Inr tr]]
    obtain pl where st: "st = Applied \<or> st = Skipped" and pl: "plan = Some pl" and msg: "msg \<noteq> []"
      by auto
    show ?thesis
    proof (cases d)
      case True
      with assms Pair Inr tr fr st pl msg show ?thesis by (auto simp: apply_body_def)
    next
      case False
      show ?thesis
      proof (cases "insertOne e (audit_entry cid p st msg (Some plan) (clock w1)) w1")
        case (Pair io w2)
        from insertOne_cases [OF Pair] show ?thesis
        proof
          assume "\<exists>m. faults e (clock w1) = Some m \<and> io = Inl (Error m) \<and> w2 = w1\<lparr>clock := Suc (clock w1)\<rparr>"
          then obtain m where m: "io = Inl (Error m)" "w2 = w1\<lparr>clock := Suc (clock w1)\<rparr>" by auto
          with assms \<open>run_operation e p d w = (ro, w1)\<close> Inr tr False Pair
          have "apply_catch e t0 cid p False (Error m) w2 = (res, w')"
            by (simp add: apply_body_def)
          from apply_catch_real [OF this] fr False m show ?thesis
            by (auto simp: audit_entry_def stringify_nonempty)
        next
          assume "faults e (clock w1) = None \<and> io = Inr () \<and>
                  w2 = w1\<lparr>clock := Suc (clock w1), audit := audit w1 @ [audit_entry cid p st msg (Some plan) (clock w1)]\<rparr>"
          with assms \<open>run_operation e p d w = (ro, w1)\<close> Inr tr False Pair fr st pl msg show ?thesis
            by (auto simp: apply_body_def audit_entry_def)
        qed
      qed
    qed
  qed
qed

lemma or_newChangeId_frame:
  "or_newChangeId e c w = (cid, w') \<Longrightarrow>
     dbs w' = dbs w \<and> audit w' = audit w \<and> events w' = events w \<and> clock w' = clock w \<and>
     clientCache w' = clientCache w \<and> connects w' = connects w \<and>
     (case c of None \<Rightarrow> cid \<noteq> [] | Some x \<Rightarrow> if x = [] then cid \<noteq> [] else cid = x \<and> w' = w)"
  by (auto simp: or_newChangeId_def newChangeId_def split: option.splits if_splits)

lemma apply_prelude_frame:
  "apply_prelude e req d w = (res, w') \<Longrightarrow>
     dbs w' = dbs w \<and> audit w' = audit w \<and> events w' = events w @ [ApplyCalled req d] \<and>
     clock w \<le> clock w'"
  unfolding apply_prelude_def Let_def ChangeRequestSchema_parse_def
  by (auto split: if_splits prod.splits sum.splits dest!: or_newChangeId_frame getClient_frame)

lemma apply_prelude_Inr:
  "apply_prelude e req d w = (Inr (p, cid), w') \<Longrightarrow>
     p = req \<and> ChangeRequestSchema req \<and> cid \<noteq> [] \<and>
     (\<forall>c. q_changeId req = Some c \<longrightarrow> cid = c)"
  unfolding apply_prelude_def Let_def ChangeRequestSchema_parse_def
  by (auto simp: ChangeRequestSchema_def split: if_splits prod.splits sum.splits option.splits
      dest!: or_newChangeId_frame)

lemma apply_prelude_succeeds:
  assumes "ChangeRequestSchema req" and "allow_check e (t_uri (q_target req)) = None"
    and "clientCache w (t_uri (q_target req)) \<noteq> None \<or> faults e (clock w) = None"
  shows "\<exists>cid w'. apply_prelude e req d w = (Inr (req, cid), w')"
proof -
  obtain cid w1 where o: "or_newChangeId e (q_changeId req)
      (w\<lparr>events := events w @ [ApplyCalled req d]\<rparr>) = (cid, w1)"
    by (cases "or_newChangeId e (q_changeId req) (w\<lparr>events := events w @ [ApplyCalled req d]\<rparr>)")
  from or_newChangeId_frame [OF o] have "clientCache w1 = clientCache w" "clock w1 = clock w"
    by auto
  with assms have "\<exists>cl w2. getClient e (t_uri (q_target req)) w1 = (Inr cl, w2)"
    by (auto simp: getClient_def driver_def split: option.splits)
  with assms(1) o show ?thesis
    by (auto simp: apply_prelude_def ChangeRequestSchema_parse_def Let_def)
qed

text \<open>What one call of the change executor returns and leaves behind.\<close>

lemma applyChange_summary:
  assumes "applyChange e req d w = (res, w')"
  shows "events w' = events w @ [ApplyCalled req d] \<and> clock w \<le> clock w' \<and>
         (d \<longrightarrow> dbs w' = dbs w \<and> audit w' = audit w) \<and>
         (case res of
            Inl x \<Rightarrow> audit w' = audit w
          | Inr r \<Rightarrow>
              ChangeRequestSchema req \<and> r_changeId r \<noteq> [] \<and>
              (\<forall>c. q_changeId req = Some c \<longrightarrow> r_changeId r = c) \<and>
              r_status r \<noteq> Reverted \<and> r_durationMs r = clock w' - clock w \<and>
              r_message r \<noteq> [] \<and>
              (r_status r = Failed \<longrightarrow> r_revertPlan r = None) \<and>
              (r_status r \<noteq> Failed \<longrightarrow> (\<exists>pl. r_revertPlan r = Some (Some pl))) \<and>
              (\<not> d \<longrightarrow> (\<exists>a. audit w' = audit w @ [a] \<and> a_changeId a = r_changeId r \<and>
                               a_status a = r_status r \<and> a_message a = r_message r \<and>
                               a_revertPlan a = r_revertPlan r \<and>
                               a_target a = q_target req \<and> a_operation a = q_operation req)))"
proof (cases "apply_prelude e req d w")
  case (Pair pr w1)
  note fr = apply_prelude_frame [OF Pair]
  show ?thesis
  proof (cases pr)
    case (Inl x)
    with assms Pair fr show ?thesis by (auto simp: applyChange_def)
  next
    case (Inr pc)
    obtain p cid where pc: "pc = (p, cid)" by (cases pc) auto
    note pi = apply_prelude_Inr [OF Pair [unfolded Inr pc]]
    from assms Pair Inr pc have b: "apply_body e (clock w) cid p d w1 = (res, w')"
      by (simp add: applyChange_def)
    from apply_body_summary [OF b] fr pi show ?thesis
      by (cases res) auto
  qed
qed

section \<open>Creating an index\<close>

lemma find_snoc_None:
  "find P xs = None \<Longrightarrow> find P (xs @ [x]) = (if P x then Some x else None)"
  by (induction xs) (auto split: if_splits)

lemma createIndex_post:
  assumes "createIndex e k coll s nm w = (Inr u, w')"
  shows "\<exists>c i. dbs w' k coll = Some c \<and> find (\<lambda>i. ix_name i = nm) (c_indexes c) = Some i \<and>
               ix_key i = s"
  using assms
  by (auto simp: createIndex_def driver_def put_collection_def Let_def find_snoc_None
      split: option.splits if_splits)

lemma apply_createIndex_applied:
  assumes "apply_createIndex e k coll s opts False w = (Inr (Applied, msg, plan), w')"
  shows "\<exists>c i. dbs w' k coll = Some c \<and>
               find (\<lambda>i. ix_name i = index_name s opts) (c_indexes c) = Some i \<and> ix_key i = s"
  using assms unfolding apply_createIndex_def Let_def
  by (auto split: prod.splits sum.splits option.splits if_splits dest: createIndex_post)

lemma applyChange_success_run:
  assumes "applyChange e req d w = (Inr r, w')" and "r_status r \<noteq> Failed"
  shows "\<exists>w1 w2 msg plan. run_operation e req d w1 = (Inr (r_status r, msg, plan), w2) \<and>
                           r_revertPlan r = Some plan \<and> dbs w' = dbs w2"
proof -
  from assms(1) obtain p cid w1 where pr: "apply_prelude e req d w = (Inr (p, cid), w1)"
    and b: "apply_body e (clock w) cid p d w1 = (Inr r, w')"
    by (auto simp: applyChange_def split: prod.splits sum.splits)
  from apply_prelude_Inr [OF pr] have p: "p = req" by simp
  from b assms(2)
  have "\<exists>w2 msg plan. run_operation e req d w1 = (Inr (r_status r, msg, plan), w2) \<and>
                      r_revertPlan r = Some plan \<and> dbs w' = dbs w2"
    unfolding p apply_body_def
    by (cases d)
      (auto split: prod.splits sum.splits if_splits dest!: insertOne_cases apply_catch_real)
  then show ?thesis by blast
qed

lemma run_operation_index_plan:
  assumes "run_operation e req d w = (Inr (st, msg, plan), w')"
    and "q_operation req = CreateIndex coll s opts"
  shows "plan = Some (DropIndexPlan coll (index_name s opts))"
  using assms unfolding run_operation_def apply_createIndex_def Let_def
  by (auto split: prod.splits sum.splits option.splits if_splits)

lemma applyChange_index_present:
  assumes "applyChange e req False w = (Inr r, w')" and "r_status r = Applied"
    and "q_operation req = CreateIndex coll s opts"
  shows "\<exists>c i. dbs w' (t_uri (q_target req), t_database (q_target req)) coll = Some c \<and>
               find (\<lambda>i. ix_name i = index_name s opts) (c_indexes c) = Some i \<and> ix_key i = s"
proof -
  from assms(2) have "r_status r \<noteq> Failed" by simp
  from applyChange_success_run [OF assms(1) this] assms(2) obtain w1 w2 msg plan
    where "run_operation e req False w1 = (Inr (Applied, msg, plan), w2)" "dbs w' = dbs w2"
    by auto
  with assms(3) show ?thesis
    by (auto simp: run_operation_def Let_def dest: apply_createIndex_applied)
qed



section \<open>Effects of the revert engine\<close>

lemma latest_entry_Some:
  assumes "latest_entry cid u recs = Some (i, r)"
  shows "i < length recs \<and> recs ! i = r \<and> a_changeId r = cid \<and> t_uri (a_target r) = u"
proof -
  let ?xs = "filter (\<lambda>x. a_changeId (snd x) = cid \<and> t_uri (a_target (snd x)) = u) (enumerate 0 recs)"
  from assms have "(i, r) \<in> set (sort_desc (\<lambda>x. a_createdAt (snd x)) ?xs)"
    by (auto simp: latest_entry_def split: list.splits)
  then have "(i, r) \<in> set ?xs" by (simp add: sort_desc_def)
  then show ?thesis by (auto simp: in_set_enumerate_eq)
qed

lemma find_latest_cases:
  "find_latest e cid u w = (r, w') \<Longrightarrow>
     w' = w\<lparr>clock := Suc (clock w)\<rparr> \<and>
     ((\<exists>m. faults e (clock w) = Some m \<and> r = Inl (Error m)) \<or>
      (faults e (clock w) = None \<and> r = Inr (latest_entry cid u (audit w))))"
  by (auto simp: find_latest_def driver_def split: option.splits)

lemma dropIndex_frame:
  "dropIndex e k coll nm w = (r, w') \<Longrightarrow>
     audit w' = audit w \<and> events w' = events w \<and> clock w' = Suc (clock w) \<and>
     (\<forall>x. r = Inl x \<longrightarrow> dbs w' = dbs w)"
  by (auto simp: dropIndex_def driver_def put_collection_def split: option.splits if_splits)

lemma dropIndex_post:
  "dropIndex e k coll nm w = (Inr u, w') \<Longrightarrow>
     \<exists>c. dbs w k coll = Some c \<and>
         dbs w' = (dbs w)(k := (dbs w k)(coll \<mapsto>
                     c\<lparr>c_indexes := filter (\<lambda>i. ix_name i \<noteq> nm) (c_indexes c)\<rparr>))"
  by (auto simp: dropIndex_def driver_def put_collection_def split: option.splits if_splits)

lemma dropCollection_frame:
  "dropCollection e k coll w = (r, w') \<Longrightarrow>
     audit w' = audit w \<and> events w' = events w \<and> clock w' = Suc (clock w) \<and>
     (\<forall>x. r = Inl x \<longrightarrow> dbs w' = dbs w)"
  by (auto simp: dropCollection_def driver_def put_collection_def split: option.splits if_splits)

lemma updateOne_frame:
  "updateOne e i now msg w = (r, w') \<Longrightarrow>
     dbs w' = dbs w \<and> events w' = events w \<and> clock w' = Suc (clock w) \<and>
     length (audit w') = length (audit w)"
  by (auto simp: updateOne_def driver_def split: option.splits if_splits)

lemma revert_createIndex_frame:
  "revert_createIndex e k coll nm i cid cr w = (r, w') \<Longrightarrow>
     events w' = events w \<and> clock w \<le> clock w' \<and> length (audit w') = length (audit w)"
  unfolding revert_createIndex_def
  by (auto split: prod.splits sum.splits dest!: dropIndex_frame updateOne_frame)

lemma revert_createCollection_frame:
  "revert_createCollection e k coll i cid cr w = (r, w') \<Longrightarrow>
     events w' = events w \<and> clock w \<le> clock w' \<and> length (audit w') = length (audit w)"
  unfolding revert_createCollection_def
  by (auto split: prod.splits sum.splits if_splits
      dest!: countDocuments_frame dropCollection_frame updateOne_frame)

lemma revert_record_frame:
  "revert_record e cid u db i rec w = (r, w') \<Longrightarrow>
     events w' = events w \<and> clock w \<le> clock w' \<and> length (audit w') = length (audit w)"
  unfolding revert_record_def Let_def
  by (auto split: operation.splits dest!: revert_createIndex_frame revert_createCollection_frame)

text \<open>A call of the revert engine is one logged event; past the lookup it is
  \<open>revert_record\<close> on a world with the same databases and audit records.\<close>

lemma revertChange_cases:
  assumes "revertChange e cid u db w = (res, w')"
  shows "events w' = events w @ [RevertCalled cid u db] \<and> clock w \<le> clock w' \<and>
         length (audit w') = length (audit w) \<and>
         ((\<exists>x. res = Inl x \<and> dbs w' = dbs w \<and> audit w' = audit w) \<or>
          (latest_entry cid u (audit w) = None \<and> dbs w' = dbs w \<and> audit w' = audit w \<and>
           res = Inr \<lparr>v_changeId = cid, v_status = Failed,
                      v_message = ''No audit entry was found for the requested changeId.'',
                      v_change = None\<rparr>) \<or>
          (\<exists>i rec w2. latest_entry cid u (audit w) = Some (i, rec) \<and>
                      dbs w2 = dbs w \<and> audit w2 = audit w \<and>
                      revert_record e cid u db i rec w2 = (res, w')))"
proof (cases "getClient e u (w\<lparr>events := events w @ [RevertCalled cid u db]\<rparr>)")
  case (Pair g w1)
  note gf = getClient_frame [OF Pair]
  show ?thesis
  proof (cases g)
    case (Inl x)
    with assms Pair gf show ?thesis by (auto simp: revertChange_def)
  next
    case (Inr cl)
    show ?thesis
    proof (cases "find_latest e cid u w1")
      case (Pair f w2)
      note ff = find_latest_cases [OF Pair]
      show ?thesis
      proof (cases f)
        case (Inl x)
        with assms \<open>getClient e u (w\<lparr>events := events w @ [RevertCalled cid u db]\<rparr>) = (g, w1)\<close>
          Inr Pair gf ff show ?thesis
          by (auto simp: revertChange_def)
      next
        case (Inr found)
        show ?thesis
        proof (cases found)
          case None
          with assms \<open>getClient e u (w\<lparr>events := events w @ [RevertCalled cid u db]\<rparr>) = (g, w1)\<close>
            \<open>g = Inr cl\<close> Inr Pair gf ff show ?thesis
            by (auto simp: revertChange_def)
        next
          case (Some ir)
          obtain i rec where ir: "ir = (i, rec)" by (cases ir) auto
          from assms \<open>getClient e u (w\<lparr>events := events w @ [RevertCalled cid u db]\<rparr>) = (g, w1)\<close>
            \<open>g = Inr cl\<close> Inr Pair Some ir
          have rr: "revert_record e cid u db i rec w2 = (res, w')"
            by (simp add: revertChange_def)
          from revert_record_frame [OF rr] gf ff Inr Some ir rr show ?thesis
            by auto
        qed
      qed
    qed
  qed
qed

lemma revertChange_quiet:
  assumes "allow_check e u = None" and "\<forall>t. faults e t = None"
  shows "\<exists>w2. dbs w2 = dbs w \<and> audit w2 = audit w \<and>
              revertChange e cid u db w =
                (case latest_entry cid u (audit w) of
                   None \<Rightarrow> (Inr \<lparr>v_changeId = cid, v_status = Failed,
                                  v_message = ''No audit entry was found for the requested changeId.'',
                                  v_change = None\<rparr>, w2)
                 | Some (i, rec) \<Rightarrow> revert_record e cid u db i rec w2)"
proof (cases "clientCache w u")
  case None
  show ?thesis
    by (rule exI [of _ "w\<lparr>events := events w @ [RevertCalled cid u db],
                         connects := connects w @ [u],
                         clientCache := (clientCache w)(u \<mapsto> Client u),
                         clock := Suc (Suc (clock w))\<rparr>"])
      (use assms None in \<open>auto simp: revertChange_def getClient_def find_latest_def driver_def
          Let_def split: option.splits\<close>)
next
  case (Some cl)
  show ?thesis
    by (rule exI [of _ "w\<lparr>events := events w @ [RevertCalled cid u db],
                         clock := Suc (clock w)\<rparr>"])
      (use assms Some in \<open>auto simp: revertChange_def getClient_def find_latest_def driver_def
          Let_def split: option.splits\<close>)
qed

lemma revert_createCollection_nonempty:
  assumes "dbs w k coll = Some c" and "0 < c_docs c"
    and "revert_createCollection e k coll i cid cr w = (res, w')"
  shows "w' = w\<lparr>clock := Suc (clock w)\<rparr> \<and>
         (\<forall>v. res = Inr v \<longrightarrow> v_status v = Failed \<and>
                v_message v = ''Cannot drop the collection because it is not empty.'')"
  using assms
  by (auto simp: revert_createCollection_def countDocuments_def driver_def split: option.splits)

section \<open>The loop of the batch orchestrator\<close>

lemma revert_calls_append [simp]:
  "revert_calls (xs @ ys) = revert_calls xs @ revert_calls ys"
  by (induction xs rule: revert_calls.induct) auto

lemma apply_calls_append [simp]:
  "apply_calls (xs @ ys) = apply_calls xs @ apply_calls ys"
  by (induction xs rule: apply_calls.induct) auto

lemma rollback_events:
  "events (rollback e as w) = events w @ map (\<lambda>a. RevertCalled (fst a) (t_uri (snd a)) (Some (t_database (snd a)))) as"
proof (induction as arbitrary: w)
  case Nil
  show ?case by simp
next
  case (Cons a as)
  obtain r w1 where r: "revertChange e (fst a) (t_uri (snd a)) (Some (t_database (snd a))) w = (r, w1)"
    by (cases "revertChange e (fst a) (t_uri (snd a)) (Some (t_database (snd a))) w")
  from revertChange_cases [OF r]
  have "events w1 = events w @ [RevertCalled (fst a) (t_uri (snd a)) (Some (t_database (snd a)))]"
    by simp
  with Cons [of w1] r show ?case by simp
qed

lemma calls_of_reverts:
  "revert_calls (map (\<lambda>a. RevertCalled (fst a) (t_uri (snd a)) (Some (t_database (snd a)))) as)
     = map entry_call as"
  "apply_calls (map (\<lambda>a. RevertCalled (fst a) (t_uri (snd a)) (Some (t_database (snd a)))) as) = []"
  by (induction as) (simp_all add: entry_call_def)

lemma rollback_calls:
  "revert_calls (events (rollback e as w)) = revert_calls (events w) @ map entry_call as"
  "apply_calls (events (rollback e as w)) = apply_calls (events w)"
  by (simp_all add: rollback_events calls_of_reverts)

lemma assign_changeId_frame:
  "assign_changeId e ch w = (c, w1) \<Longrightarrow>
     events w1 = events w \<and> dbs w1 = dbs w \<and> audit w1 = audit w \<and>
     q_target c = q_target ch \<and> q_operation c = q_operation ch"
  by (auto simp: assign_changeId_def split: prod.splits dest!: or_newChangeId_frame)

lemma applied_of_Cons:
  "applied_of (ch # chs) (r # rs) =
     (if r_status r = Applied then [(r_changeId r, q_target ch)] else []) @ applied_of chs rs"
  by (simp add: applied_of_def)

lemma applied_of_Nil [simp]: "applied_of chs [] = []"
  by (simp add: applied_of_def)

text \<open>One step of the loop of \<open>applyBatch\<close>.\<close>

lemma batch_loop_step:
  assumes "batch_loop e stop dry (ch # rest) i results applied w = (Inr br, w')"
  obtains c w1 res w2 where
    "q_target c = q_target ch" "q_operation c = q_operation ch"
    "applyChange e c dry w1 = (Inr res, w2)"
    "events w2 = events w @ [ApplyCalled c dry]"
    "r_status res = Failed \<and> stop \<and> \<not> dry \<Longrightarrow>
       br = \<lparr>b_status = RolledBack, b_failedAt = Some i, b_results = results @ [res]\<rparr> \<and>
       w' = rollback e (rev applied) w2"
    "\<not> (r_status res = Failed \<and> stop \<and> \<not> dry) \<Longrightarrow>
       batch_loop e stop dry rest (Suc i) (results @ [res])
         (if r_status res = Applied \<and> \<not> dry then applied @ [(r_changeId res, q_target ch)]
          else applied) w2 = (Inr br, w')"
proof -
  obtain c w1 where a: "assign_changeId e ch w = (c, w1)" by (cases "assign_changeId e ch w")
  obtain ar w2 where b: "applyChange e c dry w1 = (ar, w2)" by (cases "applyChange e c dry w1")
  from assms a b obtain res where res: "ar = Inr res" by (cases ar) auto
  from applyChange_summary [OF b] assign_changeId_frame [OF a]
  have ev: "events w2 = events w @ [ApplyCalled c dry]" by simp
  show thesis
  proof (rule that [of c w1 res w2])
    show "q_target c = q_target ch" "q_operation c = q_operation ch"
      using assign_changeId_frame [OF a] by simp_all
    show "applyChange e c dry w1 = (Inr res, w2)" using b res by simp
    show "events w2 = events w @ [ApplyCalled c dry]" by (rule ev)
    show "br = \<lparr>b_status = RolledBack, b_failedAt = Some i, b_results = results @ [res]\<rparr> \<and>
       w' = rollback e (rev applied) w2" if "r_status res = Failed \<and> stop \<and> \<not> dry"
      using assms a b res that by auto
    show "batch_loop e stop dry rest (Suc i) (results @ [res])
         (if r_status res = Applied \<and> \<not> dry then applied @ [(r_changeId res, q_target ch)]
          else applied) w2 = (Inr br, w')" if "\<not> (r_status res = Failed \<and> stop \<and> \<not> dry)"
      using assms a b res that by (auto split: if_splits)
  qed
qed

text \<open>
  The shape of a batch run that returns: the results appended, the requests attempted, and
  the calls of the revert engine, for either final status.
\<close>

lemma batch_loop_shape:
  assumes "batch_loop e stop dry chs i results applied w = (Inr br, w')"
  shows "\<exists>new. b_results br = results @ new \<and> length new \<le> length chs \<and>
     apply_calls (events w') =
       apply_calls (events w) @ map (\<lambda>c. (q_target c, q_operation c)) (take (length new) chs) \<and>
     (b_status br = BatchOk \<longrightarrow>
        length new = length chs \<and> b_failedAt br = None \<and>
        revert_calls (events w') = revert_calls (events w) \<and>
        (stop \<and> \<not> dry \<longrightarrow> (\<forall>r \<in> set new. r_status r \<noteq> Failed))) \<and>
     (b_status br = RolledBack \<longrightarrow>
        stop \<and> \<not> dry \<and> new \<noteq> [] \<and> b_failedAt br = Some (i + length new - 1) \<and>
        r_status (last new) = Failed \<and> (\<forall>r \<in> set (butlast new). r_status r \<noteq> Failed) \<and>
        revert_calls (events w') =
          revert_calls (events w) @ map entry_call (rev (applied @ applied_of chs new)))"
  using assms
proof (induction chs arbitrary: i results applied w)
  case Nil
  then show ?case by auto
next
  case (Cons ch rest)
  from batch_loop_step [OF Cons.prems] obtain c w1 res w2 where
    tc: "q_target c = q_target ch" "q_operation c = q_operation ch"
    and ev: "events w2 = events w @ [ApplyCalled c dry]"
    and stopped: "r_status res = Failed \<and> stop \<and> \<not> dry \<Longrightarrow>
       br = \<lparr>b_status = RolledBack, b_failedAt = Some i, b_results = results @ [res]\<rparr> \<and>
       w' = rollback e (rev applied) w2"
    and continued: "\<not> (r_status res = Failed \<and> stop \<and> \<not> dry) \<Longrightarrow>
       batch_loop e stop dry rest (Suc i) (results @ [res])
         (if r_status res = Applied \<and> \<not> dry then applied @ [(r_changeId res, q_target ch)]
          else applied) w2 = (Inr br, w')"
    by blast
  show ?case
  proof (cases "r_status res = Failed \<and> stop \<and> \<not> dry")
    case True
    from stopped [OF True] True ev tc show ?thesis
      by (intro exI [of _ "[res]"]) (simp add: rollback_calls applied_of_Cons)
  next
    case False
    let ?applied = "if r_status res = Applied \<and> \<not> dry
                    then applied @ [(r_changeId res, q_target ch)] else applied"
    from Cons.IH [OF continued [OF False]] obtain new where
      n1: "b_results br = (results @ [res]) @ new" "length new \<le> length rest"
      and n2: "apply_calls (events w') =
         apply_calls (events w2) @ map (\<lambda>c. (q_target c, q_operation c)) (take (length new) rest)"
      and ok: "b_status br = BatchOk \<Longrightarrow>
         length new = length rest \<and> b_failedAt br = None \<and>
         revert_calls (events w') = revert_calls (events w2) \<and>
         (stop \<and> \<not> dry \<longrightarrow> (\<forall>r \<in> set new. r_status r \<noteq> Failed))"
      and rb: "b_status br = RolledBack \<Longrightarrow>
         stop \<and> \<not> dry \<and> new \<noteq> [] \<and> b_failedAt br = Some (Suc i + length new - 1) \<and>
         r_status (last new) = Failed \<and> (\<forall>r \<in> set (butlast new). r_status r \<noteq> Failed) \<and>
         revert_calls (events w') =
           revert_calls (events w2) @ map entry_call (rev (?applied @ applied_of rest new))"
      by blast
    have a: "b_results br = results @ (res # new)" "length (res # new) \<le> length (ch # rest)"
      using n1 by simp_all
    have b: "apply_calls (events w') = apply_calls (events w) @
        map (\<lambda>c. (q_target c, q_operation c)) (take (length (res # new)) (ch # rest))"
      using n2 ev tc by simp
    have c: "length (res # new) = length (ch # rest) \<and> b_failedAt br = None \<and>
         revert_calls (events w') = revert_calls (events w) \<and>
         (stop \<and> \<not> dry \<longrightarrow> (\<forall>r \<in> set (res # new). r_status r \<noteq> Failed))"
      if "b_status br = BatchOk"
      using ok [OF that] ev False by auto
    have d: "stop \<and> \<not> dry \<and> res # new \<noteq> [] \<and>
         b_failedAt br = Some (i + length (res # new) - 1) \<and>
         r_status (last (res # new)) = Failed \<and>
         (\<forall>r \<in> set (butlast (res # new)). r_status r \<noteq> Failed) \<and>
         revert_calls (events w') =
           revert_calls (events w) @ map entry_call (rev (applied @ applied_of (ch # rest) (res # new)))"
      if "b_status br = RolledBack"
    proof -
      from rb [OF that] have sd: "stop" "\<not> dry" and ne: "new \<noteq> []" by auto
      from sd False have nf: "r_status res \<noteq> Failed" by simp
      from rb [OF that] ne nf sd ev show ?thesis
        by (auto simp: applied_of_Cons)
    qed
    from a b c d show ?thesis by blast
  qed
qed

lemma batch_loop_dry:
  "batch_loop e stop True chs i results applied w = (res, w') \<Longrightarrow>
     revert_calls (events w') = revert_calls (events w) \<and> dbs w' = dbs w \<and> audit w' = audit w \<and>
     (\<forall>br. res = Inr br \<longrightarrow> b_status br = BatchOk \<and> b_failedAt br = None)"
proof (induction chs arbitrary: i results applied w)
  case Nil
  then show ?case by auto
next
  case (Cons ch rest)
  obtain c w1 where a: "assign_changeId e ch w = (c, w1)" by (cases "assign_changeId e ch w")
  obtain ar w2 where b: "applyChange e c True w1 = (ar, w2)" by (cases "applyChange e c True w1")
  from applyChange_summary [OF b] assign_changeId_frame [OF a]
  have fr: "revert_calls (events w2) = revert_calls (events w)" "dbs w2 = dbs w" "audit w2 = audit w"
    by simp_all
  show ?case
  proof (cases ar)
    case (Inl x)
    with Cons.prems a b fr show ?thesis by auto
  next
    case (Inr r)
    with Cons.prems a b
    have "batch_loop e stop True rest (Suc i) (results @ [r]) applied w2 = (res, w')"
      by simp
    from Cons.IH [OF this] fr show ?thesis by simp
  qed
qed

lemma batch_loop_thrown:
  "batch_loop e stop dry chs i results applied w = (Inl x, w') \<Longrightarrow>
     revert_calls (events w') = revert_calls (events w)"
proof (induction chs arbitrary: i results applied w)
  case Nil
  then show ?case by simp
next
  case (Cons ch rest)
  obtain c w1 where a: "assign_changeId e ch w = (c, w1)" by (cases "assign_changeId e ch w")
  obtain ar w2 where b: "applyChange e c dry w1 = (ar, w2)" by (cases "applyChange e c dry w1")
  from applyChange_summary [OF b] assign_changeId_frame [OF a]
  have fr: "revert_calls (events w2) = revert_calls (events w)" by simp
  show ?case
  proof (cases ar)
    case (Inl y)
    with Cons.prems a b fr show ?thesis by auto
  next
    case (Inr r)
    with Cons.prems a b
    have "batch_loop e stop dry rest (Suc i) (results @ [r])
         (if r_status r = Applied \<and> \<not> dry then applied @ [(r_changeId r, q_target ch)]
          else applied) w2 = (Inl x, w')"
      by (auto split: if_splits)
    from Cons.IH [OF this] fr show ?thesis by simp
  qed
qed

lemma applied_of_mem:
  assumes "a \<in> set (applied_of chs rs)"
  shows "\<exists>j. j < length rs \<and> j < length chs \<and> r_status (rs ! j) = Applied \<and>
             a = (r_changeId (rs ! j), q_target (chs ! j))"
  using assms by (auto simp: applied_of_def in_set_zip)

section \<open>Pages of the audit store\<close>

lemma sort_desc_sorted: "sorted_wrt (\<lambda>a b. f b \<le> f a) (sort_desc f xs)"
proof -
  have "sorted (map f (sort_key f xs))" by (rule sorted_sort_key)
  then have "sorted_wrt (\<lambda>a b. f a \<le> f b) (sort_key f xs)" by (simp add: sorted_map)
  then show ?thesis by (simp add: sort_desc_def sorted_wrt_rev)
qed

lemma set_sort_desc [simp]: "set (sort_desc f xs) = set xs"
  by (simp add: sort_desc_def)

lemma cursor_limit_props:
  "set (cursor_limit e n xs) \<subseteq> set xs"
  "0 < n \<Longrightarrow> length (cursor_limit e n xs) \<le> nat n"
  "n < 0 \<Longrightarrow> length (cursor_limit e n xs) \<le> min (nat (- n)) (firstBatch e)"
  "sorted_wrt P xs \<Longrightarrow> sorted_wrt P (cursor_limit e n xs)"
  by (auto simp: cursor_limit_def dest: in_set_takeD)

lemma status_list_reverted: "status_list (js ''reverted'') = [js ''reverted'']"
  by (simp add: status_list_def trim_def is_space_def js_def)

lemma status_str_reverted: "js (status_str s) = js ''reverted'' \<longleftrightarrow> s = Reverted"
  by (cases s) (simp_all add: js_def)

lemma listChanges_Inr:
  assumes "listChanges e u q w = (Inr pg, w')"
  shows "p_items pg =
           cursor_limit e (min (case lq_limit q of None \<Rightarrow> 100 | Some n \<Rightarrow> if n = 0 then 100 else n) 500)
             (drop (nat (case lq_skip q of None \<Rightarrow> 0 | Some n \<Rightarrow> n))
                (sort_desc a_createdAt (filter (query_filter e u q) (audit w)))) \<and>
         p_total pg = length (filter (query_filter e u q) (audit w))"
proof -
  from assms obtain cl w1 where g: "getClient e u w = (Inr cl, w1)"
    by (auto simp: listChanges_def split: prod.splits sum.splits)
  from getClient_frame [OF g] have "audit w1 = audit w" by simp
  with assms g show ?thesis
    by (auto simp: listChanges_def find_page_def count_matching_def driver_def Let_def
        split: prod.splits sum.splits option.splits if_splits)
qed

lemma listChanges_quiet:
  assumes "allow_check e u = None" and "\<forall>t. faults e t = None"
    and "\<forall>n. lq_skip q = Some n \<longrightarrow> 0 \<le> n"
  shows "\<exists>pg w'. listChanges e u q w = (Inr pg, w')"
  using assms
  by (auto simp: listChanges_def getClient_def find_page_def count_matching_def driver_def Let_def
      split: prod.splits sum.splits option.splits)

section \<open>Properties of the connection manager\<close>

text \<open>
  C10. While a non-empty allow-pattern is configured, \<open>getClient\<close> tests the URI before it
  looks at the cache: for a URI that the pattern does not match the call fails and the
  world is returned as it was, whatever the cache holds for that URI. So no connection is
  attempted (\<open>connects\<close> is unchanged) and a handle cached earlier is not handed out.
\<close>

theorem getClient_pattern_first:
  assumes "ALLOW_TARGET_URI_REGEX e = Some p" and "p \<noteq> []"
    and "regexp e p = Some test" and "\<not> test u"
  shows "getClient e u w =
           (Inl (Error ''The provided MongoDB URI does not match ALLOW_TARGET_URI_REGEX.''), w)"
  using assms by (simp add: getClient_def allow_check_def)

theorem getClient_pattern_first_witness:
  "getClient (quiet_env\<lparr>ALLOW_TARGET_URI_REGEX := Some ''mongodb://prod''\<rparr>) ''mongodb://dev''
      (empty_world\<lparr>clientCache := [''mongodb://dev'' \<mapsto> Client ''mongodb://dev'']\<rparr>)
   = (Inl (Error ''The provided MongoDB URI does not match ALLOW_TARGET_URI_REGEX.''),
      empty_world\<lparr>clientCache := [''mongodb://dev'' \<mapsto> Client ''mongodb://dev'']\<rparr>)
   \<and> getClient quiet_env ''mongodb://dev''
      (empty_world\<lparr>clientCache := [''mongodb://dev'' \<mapsto> Client ''mongodb://dev'']\<rparr>)
   = (Inr (Client ''mongodb://dev''),
      empty_world\<lparr>clientCache := [''mongodb://dev'' \<mapsto> Client ''mongodb://dev'']\<rparr>)"
proof -
  let ?e = "quiet_env\<lparr>ALLOW_TARGET_URI_REGEX := Some ''mongodb://prod''\<rparr>"
  have h1: "ALLOW_TARGET_URI_REGEX ?e = Some ''mongodb://prod''" by simp
  have h2: "''mongodb://prod'' \<noteq> []" by simp
  have h3: "regexp ?e ''mongodb://prod''
              = Some (\<lambda>u. take (length ''mongodb://prod'') u = ''mongodb://prod'')"
    by (simp add: quiet_env_def)
  have h4: "\<not> (\<lambda>u. take (length ''mongodb://prod'') u = ''mongodb://prod'') ''mongodb://dev''"
    by simp
  show ?thesis
    using getClient_pattern_first [OF h1 h2 h3 h4]
    by (simp add: quiet_env_def getClient_def allow_check_def)
qed

section \<open>Properties of the change executor\<close>

text \<open>
  C3. A simulated call (\<open>dryRun\<close> true) leaves every target database and the audit
  collection as they were, whatever the request, the world and the driver's faults are.
  For a request that passes validation and whose target can be connected, it still returns
  a change result (never an exception).
\<close>

theorem applyChange_simulate_frame:
  "dbs (snd (applyChange e req True w)) = dbs w \<and>
   audit (snd (applyChange e req True w)) = audit w \<and>
   (ChangeRequestSchema req \<and> allow_check e (t_uri (q_target req)) = None \<and>
    (clientCache w (t_uri (q_target req)) \<noteq> None \<or> faults e (clock w) = None)
    \<longrightarrow> (\<exists>r. fst (applyChange e req True w) = Inr r))"
proof -
  obtain res w' where a: "applyChange e req True w = (res, w')"
    by (cases "applyChange e req True w")
  from applyChange_summary [OF a] have fr: "dbs w' = dbs w" "audit w' = audit w" by auto
  have "\<exists>r. res = Inr r"
    if h: "ChangeRequestSchema req" "allow_check e (t_uri (q_target req)) = None"
      "clientCache w (t_uri (q_target req)) \<noteq> None \<or> faults e (clock w) = None"
  proof -
    from apply_prelude_succeeds [OF h] obtain cid w1
      where p: "apply_prelude e req True w = (Inr (req, cid), w1)" by blast
    with a have "apply_body e (clock w) cid req True w1 = (res, w')"
      by (simp add: applyChange_def)
    from apply_body_summary [OF this] show ?thesis by simp
  qed
  with a fr show ?thesis by simp
qed

text \<open>
  Witness for C3: the three simulated outcomes (applied, skipped, failed) on the scenario
  world, each leaving the databases and the empty audit collection untouched.
\<close>

theorem applyChange_simulate_frame_witness:
  "r_status (projr (fst (applyChange quiet_env ix_email_request True users_world))) = Applied \<and>
   r_status (projr (fst (applyChange quiet_env users_request True users_world))) = Skipped \<and>
   r_status (projr (fst (applyChange quiet_env clash_request True users_world))) = Failed \<and>
   dbs (snd (applyChange quiet_env ix_email_request True users_world)) = dbs users_world \<and>
   dbs (snd (applyChange quiet_env users_request True users_world)) = dbs users_world \<and>
   dbs (snd (applyChange quiet_env clash_request True users_world)) = dbs users_world \<and>
   audit (snd (applyChange quiet_env ix_email_request True users_world)) = [] \<and>
   audit (snd (applyChange quiet_env users_request True users_world)) = [] \<and>
   audit (snd (applyChange quiet_env clash_request True users_world)) = [] \<and>
   (\<exists>r. fst (applyChange quiet_env ix_email_request True users_world) = Inr r) \<and>
   (\<exists>r. fst (applyChange quiet_env users_request True users_world) = Inr r) \<and>
   (\<exists>r. fst (applyChange quiet_env clash_request True users_world) = Inr r)"
proof -
  have v: "ChangeRequestSchema ix_email_request" "ChangeRequestSchema users_request"
    "ChangeRequestSchema clash_request"
    by (simp_all add: ChangeRequestSchema_def scenario_defs)
  have al: "allow_check quiet_env ''mongodb://x'' = None"
    by (simp add: allow_check_def quiet_env_def)
  have u: "t_uri (q_target ix_email_request) = ''mongodb://x''"
    "t_uri (q_target users_request) = ''mongodb://x''"
    "t_uri (q_target clash_request) = ''mongodb://x''"
    by (simp_all add: scenario_defs)
  have c: "clientCache users_world ''mongodb://x'' \<noteq> None" "audit users_world = []"
    by (simp_all add: scenario_defs)
  have s: "r_status (projr (fst (applyChange quiet_env ix_email_request True users_world))) = Applied"
    "r_status (projr (fst (applyChange quiet_env users_request True users_world))) = Skipped"
    "r_status (projr (fst (applyChange quiet_env clash_request True users_world))) = Failed"
    by (simp_all add: exec_defs scenario_defs)
  show ?thesis
    using applyChange_simulate_frame [of quiet_env ix_email_request users_world]
      applyChange_simulate_frame [of quiet_env users_request users_world]
      applyChange_simulate_frame [of quiet_env clash_request users_world]
      v al u c s
    by simp
qed

text \<open>
  C9, counterexample. The result for an index name that is taken by other keys has status
  failed and no \<open>revertPlan\<close> field: the handler returns
  \<open>{changeId, status, message, durationMs}\<close> only.
\<close>

theorem applyChange_failed_has_no_plan:
  "fst (applyChange quiet_env clash_request False users_world) =
     Inr \<lparr>r_changeId = ''chg-3'', r_status = Failed,
          r_message = ''An index with this name already exists but uses different keys.'',
          r_revertPlan = None, r_durationMs = 2\<rparr>"
  by (simp add: exec_defs scenario_defs)

text \<open>
  C9, as amended. Every result returned by \<open>applyChange\<close> carries a non-empty change
  identifier, a status among applied, skipped and failed, a non-empty message and the
  duration; a result with status applied or skipped also carries a (non-null) revert
  plan, and a result with status failed carries no \<open>revertPlan\<close> field.
\<close>

theorem applyChange_result_fields:
  assumes "applyChange e req d w = (Inr r, w')"
  shows "r_changeId r \<noteq> [] \<and> r_status r \<in> {Applied, Skipped, Failed} \<and> r_message r \<noteq> [] \<and>
         r_durationMs r = clock w' - clock w \<and>
         (r_status r = Failed \<longrightarrow> r_revertPlan r = None) \<and>
         (r_status r \<noteq> Failed \<longrightarrow> (\<exists>pl. r_revertPlan r = Some (Some pl)))"
  using applyChange_summary [OF assms] by (cases "r_status r") auto

text \<open>
  Witness for C9 as amended: the scenario's request, applied.
\<close>

theorem applyChange_result_fields_witness:
  "r_changeId (projr (fst (applyChange quiet_env ix_email_request False users_world))) \<noteq> [] \<and>
   r_status (projr (fst (applyChange quiet_env ix_email_request False users_world))) = Applied \<and>
   r_revertPlan (projr (fst (applyChange quiet_env ix_email_request False users_world)))
     = Some (Some (DropIndexPlan ''users'' ''ix_email''))"
proof -
  obtain r w' where a: "applyChange quiet_env ix_email_request False users_world = (Inr r, w')"
    and st: "r_status r = Applied" and pl: "r_revertPlan r = Some (Some (DropIndexPlan ''users'' ''ix_email''))"
    by (simp add: exec_defs scenario_defs)
  from applyChange_result_fields [OF a] a st pl show ?thesis by simp
qed

text \<open>
  C4, counterexample. The call reaches execution (the connection is cached), the driver
  fails the lookup and then also the audit write of the handler: the exception of that
  write reaches the caller and no audit record is written.
\<close>

theorem applyChange_handler_write_fails:
  "fst (apply_prelude down_env users_request False users_world) = Inr (users_request, ''chg-2'') \<and>
   fst (applyChange down_env users_request False users_world) = Inl (Error ''connection lost'') \<and>
   audit (snd (applyChange down_env users_request False users_world)) = audit users_world"
  by (simp add: exec_defs scenario_defs down_env_def)

text \<open>
  C4, as amended. For a non-simulated call that reaches execution:
  whenever a result is returned (applied, skipped or failed), exactly one audit record was
  appended, with the result's change identifier, status and message;
  an error raised by the driver while the operation runs is caught and, provided the audit
  write of the handler succeeds, becomes a failed result whose message is the stringified
  cause, with one failed audit record;
  an exception reaches the caller only as the fault of the last driver call made (the
  handler's own audit write), and then no audit record has been written.
\<close>

theorem applyChange_audits_once:
  assumes "apply_prelude e req False w = (Inr (p, cid), w1)"
  shows "(\<forall>r w'. applyChange e req False w = (Inr r, w') \<longrightarrow>
            (\<exists>a. audit w' = audit w @ [a] \<and> a_changeId a = r_changeId r \<and>
                 a_status a = r_status r \<and> a_message a = r_message r)) \<and>
         (\<forall>m w2. run_operation e p False w1 = (Inl (Error m), w2) \<and> faults e (clock w2) = None \<longrightarrow>
            (\<exists>r w'. applyChange e req False w = (Inr r, w') \<and> r_status r = Failed \<and>
                    r_message r = stringify (Error m) \<and>
                    audit w' = audit w @ [audit_entry cid p Failed (stringify (Error m)) None (clock w2)])) \<and>
         (\<forall>x w'. applyChange e req False w = (Inl x, w') \<longrightarrow>
            audit w' = audit w \<and> (\<exists>m. x = Error m \<and> faults e (clock w' - 1) = Some m))"
proof -
  have one: "\<exists>a. audit w' = audit w @ [a] \<and> a_changeId a = r_changeId r \<and>
                 a_status a = r_status r \<and> a_message a = r_message r"
    if "applyChange e req False w = (Inr r, w')" for r w'
    using applyChange_summary [OF that] by auto
  have caught: "\<exists>r w'. applyChange e req False w = (Inr r, w') \<and> r_status r = Failed \<and>
          r_message r = stringify (Error m) \<and>
          audit w' = audit w @ [audit_entry cid p Failed (stringify (Error m)) None (clock w2)]"
    if h: "run_operation e p False w1 = (Inl (Error m), w2) \<and> faults e (clock w2) = None"
    for m w2
  proof -
    have aw: "audit w2 = audit w"
      using run_operation_frame [of e p False w1 "Inl (Error m)" w2] h
        apply_prelude_frame [OF assms]
      by simp
    from h assms aw show ?thesis
      by (simp add: applyChange_def apply_body_def apply_catch_def insertOne_def driver_def Let_def)
  qed
  have thrown: "audit w' = audit w \<and> (\<exists>m. x = Error m \<and> faults e (clock w' - 1) = Some m)"
    if a: "applyChange e req False w = (Inl x, w')" for x w'
  proof -
    from a assms have b: "apply_body e (clock w) cid p False w1 = (Inl x, w')"
      by (simp add: applyChange_def)
    from apply_body_summary [OF b] apply_prelude_frame [OF assms] show ?thesis
      by auto
  qed
  from one caught thrown show ?thesis by blast
qed

text \<open>
  Witness for C4 as amended: the lookup fails once with \<open>boom\<close>, the handler's audit write
  succeeds.
\<close>

theorem applyChange_audits_once_witness:
  "fst (applyChange glitch_env users_request False users_world) =
     Inr \<lparr>r_changeId = ''chg-2'', r_status = Failed, r_message = ''boom'',
          r_revertPlan = None, r_durationMs = 2\<rparr> \<and>
   audit (snd (applyChange glitch_env users_request False users_world)) =
     [audit_entry ''chg-2'' users_request Failed ''boom'' None 1]"
proof -
  obtain w1 where p: "apply_prelude glitch_env users_request False users_world
      = (Inr (users_request, ''chg-2''), w1)"
    and w1: "w1 = users_world\<lparr>events := [ApplyCalled users_request False]\<rparr>"
    by (simp add: exec_defs scenario_defs glitch_env_def)
  have r: "run_operation glitch_env users_request False w1
      = (Inl (Error ''boom''), w1\<lparr>clock := 1\<rparr>) \<and> faults glitch_env (clock (w1\<lparr>clock := 1\<rparr>)) = None"
    unfolding w1 by (simp add: exec_defs scenario_defs glitch_env_def)
  have au: "audit users_world = []" by (simp add: scenario_defs)
  from applyChange_audits_once [OF p] r au
  obtain r w' where a: "applyChange glitch_env users_request False users_world = (Inr r, w')"
    "r_status r = Failed" "r_message r = ''boom''"
    "audit w' = [audit_entry ''chg-2'' users_request Failed ''boom'' None 1]"
    by (auto simp del: One_nat_def)
  have "fst (applyChange glitch_env users_request False users_world) =
     Inr \<lparr>r_changeId = ''chg-2'', r_status = Failed, r_message = ''boom'',
          r_revertPlan = None, r_durationMs = 2\<rparr>"
    by (simp add: exec_defs scenario_defs glitch_env_def)
  with a show ?thesis by simp
qed



text \<open>
  C6, counterexample. Without \<open>options.name\<close>, the specification \<open>{b: 1, a: 1}\<close> is
  applied under the name \<open>idx_b_a\<close>; the field names in sorted order would give
  \<open>idx_a_b\<close>.
\<close>

theorem index_name_not_sorted:
  "r_status (projr (fst (applyChange quiet_env ba_request False users_world))) = Applied \<and>
   r_revertPlan (projr (fst (applyChange quiet_env ba_request False users_world)))
     = Some (Some (DropIndexPlan ''users'' ''idx_b_a'')) \<and>
   sorted_index_name [(''b'', 1), (''a'', 1)] = ''idx_a_b''"
  by (simp add: exec_defs scenario_defs ba_request_def sorted_index_name_def)

text \<open>
  C6, as amended. For a \<open>createIndex\<close> request without \<open>options.name\<close> the effective name
  is \<open>idx_\<close> followed by the field names in the key order of the specification
  (\<open>Object.keys\<close>), joined by \<open>_\<close>: it is the name in the revert plan of every applied or
  skipped result, the name under which an applied request creates the index, and the name
  of the indexes that a successful \<open>revertChange\<close> of such a record drops. The name
  depends on the specification only, so identical specifications resolve to the same name.
\<close>

theorem index_name_resolution:
  assumes op: "q_operation req = CreateIndex coll s None"
  shows "(\<forall>r w'. applyChange e req d w = (Inr r, w') \<and> r_status r \<noteq> Failed \<longrightarrow>
            r_revertPlan r = Some (Some (DropIndexPlan coll (''idx_'' @ join ''_'' (map fst s))))) \<and>
         (\<forall>r w'. applyChange e req False w = (Inr r, w') \<and> r_status r = Applied \<longrightarrow>
            (\<exists>c i. dbs w' (t_uri (q_target req), t_database (q_target req)) coll = Some c \<and>
                   find (\<lambda>i. ix_name i = ''idx_'' @ join ''_'' (map fst s)) (c_indexes c) = Some i \<and>
                   ix_key i = s)) \<and>
         (\<forall>cid u db i rec v w0 w0'.
            latest_entry cid u (audit w0) = Some (i, rec) \<and> a_operation rec = q_operation req \<and>
            revertChange e cid u db w0 = (Inr v, w0') \<and> v_status v = Reverted \<longrightarrow>
            (\<exists>c. dbs w0 (u, acting_database db rec) coll = Some c \<and>
                 dbs w0' (u, acting_database db rec) coll =
                   Some (c\<lparr>c_indexes := filter (\<lambda>i. ix_name i \<noteq> ''idx_'' @ join ''_'' (map fst s))
                                             (c_indexes c)\<rparr>)))"
proof -
  have nm: "index_name s None = ''idx_'' @ join ''_'' (map fst s)"
    by (simp add: index_name_def)
  have plan: "r_revertPlan r = Some (Some (DropIndexPlan coll (''idx_'' @ join ''_'' (map fst s))))"
    if "applyChange e req d w = (Inr r, w') \<and> r_status r \<noteq> Failed" for r w'
  proof -
    from applyChange_success_run [of e req d w r w'] that obtain w1 w2 msg pl
      where "run_operation e req d w1 = (Inr (r_status r, msg, pl), w2)" "r_revertPlan r = Some pl"
      by blast
    with run_operation_index_plan [OF _ op] nm show ?thesis by simp
  qed
  have created: "\<exists>c i. dbs w' (t_uri (q_target req), t_database (q_target req)) coll = Some c \<and>
                   find (\<lambda>i. ix_name i = ''idx_'' @ join ''_'' (map fst s)) (c_indexes c) = Some i \<and>
                   ix_key i = s"
    if "applyChange e req False w = (Inr r, w') \<and> r_status r = Applied" for r w'
    using applyChange_index_present [OF _ _ op, of e w r w'] that nm by simp
  have dropped: "\<exists>c. dbs w0 (u, acting_database db rec) coll = Some c \<and>
                 dbs w0' (u, acting_database db rec) coll =
                   Some (c\<lparr>c_indexes := filter (\<lambda>i. ix_name i \<noteq> ''idx_'' @ join ''_'' (map fst s))
                                             (c_indexes c)\<rparr>)"
    if h: "latest_entry cid u (audit w0) = Some (i, rec) \<and> a_operation rec = q_operation req \<and>
           revertChange e cid u db w0 = (Inr v, w0') \<and> v_status v = Reverted"
    for cid u db i rec v w0 w0'
  proof -
    from h have r: "revertChange e cid u db w0 = (Inr v, w0')" by simp
    from revertChange_cases [OF r] h obtain w2
      where w2: "dbs w2 = dbs w0" "revert_record e cid u db i rec w2 = (Inr v, w0')"
      by auto
    from w2(2) h op nm
    have "revert_createIndex e (u, acting_database db rec) coll (''idx_'' @ join ''_'' (map fst s)) i cid
        \<lparr>q_changeId = Some (a_changeId rec), q_target = a_target rec,
         q_operation = a_operation rec, q_metadata = Some (a_metadata rec)\<rparr> w2 = (Inr v, w0')"
      by (simp add: revert_record_def Let_def)
    with h obtain w3 where di: "dropIndex e (u, acting_database db rec) coll
        (''idx_'' @ join ''_'' (map fst s)) w2 = (Inr (), w3)" and w3: "dbs w0' = dbs w3"
      unfolding revert_createIndex_def
      by (auto split: prod.splits sum.splits dest!: updateOne_frame)
    from dropIndex_post [OF di] w2(1) w3 show ?thesis by auto
  qed
  from plan created dropped show ?thesis by blast
qed

text \<open>
  Witness for C6 as amended: \<open>{b: 1, a: 1}\<close> applied as \<open>idx_b_a\<close>, then reverted.
\<close>

theorem index_name_resolution_witness:
  "r_revertPlan (projr (fst (applyChange quiet_env ba_request False users_world)))
     = Some (Some (DropIndexPlan ''users'' ''idx_b_a'')) \<and>
   dbs (snd (applyChange quiet_env ba_request False users_world)) (''mongodb://x'', ''D'') ''users''
     = Some \<lparr>c_docs = 2, c_indexes = [id_index, \<lparr>ix_name = ''idx_b_a'', ix_key = [(''b'', 1), (''a'', 1)]\<rparr>]\<rparr> \<and>
   v_status (projr (fst (revertChange quiet_env ''chg-4'' ''mongodb://x'' None
      (snd (applyChange quiet_env ba_request False users_world))))) = Reverted \<and>
   dbs (snd (revertChange quiet_env ''chg-4'' ''mongodb://x'' None
      (snd (applyChange quiet_env ba_request False users_world)))) (''mongodb://x'', ''D'') ''users''
     = Some \<lparr>c_docs = 2, c_indexes = [id_index]\<rparr>"
proof -
  have op: "q_operation ba_request = CreateIndex ''users'' [(''b'', 1), (''a'', 1)] None"
    by (simp add: ba_request_def)
  obtain r w' where a: "applyChange quiet_env ba_request False users_world = (Inr r, w')"
    and st: "r_status r = Applied"
    and w': "dbs w' (''mongodb://x'', ''D'') ''users''
      = Some \<lparr>c_docs = 2, c_indexes = [id_index, \<lparr>ix_name = ''idx_b_a'', ix_key = [(''b'', 1), (''a'', 1)]\<rparr>]\<rparr>"
    and rv: "v_status (projr (fst (revertChange quiet_env ''chg-4'' ''mongodb://x'' None w'))) = Reverted"
    and rd: "dbs (snd (revertChange quiet_env ''chg-4'' ''mongodb://x'' None w')) (''mongodb://x'', ''D'') ''users''
      = Some \<lparr>c_docs = 2, c_indexes = [id_index]\<rparr>"
    by (simp add: exec_defs scenario_defs ba_request_def revert_defs)
  from index_name_resolution [OF op, of quiet_env False users_world] a st
  have "r_revertPlan r = Some (Some (DropIndexPlan ''users'' ''idx_b_a''))" by simp
  with a w' rv rd show ?thesis by simp
qed

section \<open>Properties of the revert engine\<close>

text \<open>
  C5. Let the newest audit record for the change identifier and URI be a
  \<open>createCollection\<close>, and let the collection exist in the acting database. If it holds at
  least one document, \<open>revertChange\<close> changes neither the databases nor the audit
  collection, whatever the driver does; any result it returns is failed with the
  "not empty" message, and it does return a result when the target is allowed and the
  driver calls succeed. If the collection is empty (and the target is allowed and the
  driver calls succeed), the result is reverted, the collection is gone, and the audit
  record is marked reverted.
\<close>

theorem revertChange_createCollection_guard:
  assumes rec: "latest_entry cid u (audit w) = Some (i, rec)"
    and op: "a_operation rec = CreateCollection coll copts"
    and c: "dbs w (u, acting_database db rec) coll = Some c"
  shows "(0 < c_docs c \<longrightarrow>
            dbs (snd (revertChange e cid u db w)) = dbs w \<and>
            audit (snd (revertChange e cid u db w)) = audit w \<and>
            (\<forall>v. fst (revertChange e cid u db w) = Inr v \<longrightarrow>
                 v_status v = Failed \<and>
                 v_message v = ''Cannot drop the collection because it is not empty.'') \<and>
            (allow_check e u = None \<and> (\<forall>t. faults e t = None) \<longrightarrow>
               (\<exists>v. fst (revertChange e cid u db w) = Inr v))) \<and>
         (c_docs c = 0 \<and> allow_check e u = None \<and> (\<forall>t. faults e t = None) \<longrightarrow>
            (\<exists>v. fst (revertChange e cid u db w) = Inr v \<and> v_status v = Reverted) \<and>
            dbs (snd (revertChange e cid u db w)) (u, acting_database db rec) coll = None \<and>
            (\<exists>t. audit (snd (revertChange e cid u db w)) =
                   (audit w)[i := rec\<lparr>a_status := Reverted, a_revertedAt := Some t,
                                       a_revertMessage := Some ''Collection dropped successfully.''\<rparr>]))"
proof -
  let ?R = "revertChange e cid u db w"
  have guarded: "dbs (snd ?R) = dbs w \<and> audit (snd ?R) = audit w \<and>
      (\<forall>v. fst ?R = Inr v \<longrightarrow> v_status v = Failed \<and>
            v_message v = ''Cannot drop the collection because it is not empty.'')"
    if pos: "0 < c_docs c"
  proof -
    obtain res w' where r: "?R = (res, w')" by (cases ?R)
    from revertChange_cases [OF r] rec
    consider x where "res = Inl x" "dbs w' = dbs w" "audit w' = audit w"
      | w2 where "dbs w2 = dbs w" "audit w2 = audit w"
          "revert_record e cid u db i rec w2 = (res, w')"
      by auto
    then have "dbs w' = dbs w \<and> audit w' = audit w \<and>
        (\<forall>v. res = Inr v \<longrightarrow> v_status v = Failed \<and>
              v_message v = ''Cannot drop the collection because it is not empty.'')"
    proof cases
      case 1
      then show ?thesis by simp
    next
      case 2
      from 2(3) op have "revert_createCollection e (u, acting_database db rec) coll i cid
          \<lparr>q_changeId = Some (a_changeId rec), q_target = a_target rec,
           q_operation = a_operation rec, q_metadata = Some (a_metadata rec)\<rparr> w2 = (res, w')"
        by (simp add: revert_record_def Let_def)
      from revert_createCollection_nonempty [OF _ pos this] c 2(1,2) show ?thesis by simp
    qed
    with r show ?thesis by simp
  qed
  have returns: "\<exists>v. fst ?R = Inr v"
    if pos: "0 < c_docs c" and q: "allow_check e u = None \<and> (\<forall>t. faults e t = None)"
  proof -
    from revertChange_quiet [of e u w cid db] q rec obtain w2
      where w2: "dbs w2 = dbs w" "?R = revert_record e cid u db i rec w2"
      by auto
    with op c pos q show ?thesis
      by (simp add: revert_record_def revert_createCollection_def countDocuments_def
          driver_def Let_def)
  qed
  have dropped: "(\<exists>v. fst ?R = Inr v \<and> v_status v = Reverted) \<and>
        dbs (snd ?R) (u, acting_database db rec) coll = None \<and>
        (\<exists>t. audit (snd ?R) =
               (audit w)[i := rec\<lparr>a_status := Reverted, a_revertedAt := Some t,
                                   a_revertMessage := Some ''Collection dropped successfully.''\<rparr>])"
    if h: "c_docs c = 0 \<and> allow_check e u = None \<and> (\<forall>t. faults e t = None)"
  proof -
    from revertChange_quiet [of e u w cid db] h rec obtain w2
      where w2: "dbs w2 = dbs w" "audit w2 = audit w"
        "?R = revert_record e cid u db i rec w2"
      by auto
    from latest_entry_Some [OF rec] have i: "i < length (audit w)" "audit w ! i = rec" by auto
    from w2 op c h i show ?thesis
      by (auto simp: revert_record_def revert_createCollection_def countDocuments_def
          dropCollection_def updateOne_def put_collection_def driver_def Let_def)
  qed
  from guarded returns dropped show ?thesis by blast
qed

text \<open>
  Witness for C5: reverting the change that created the populated \<open>users\<close> is refused;
  reverting the change that created the empty \<open>orders\<close> drops it.
\<close>

theorem revertChange_createCollection_guard_witness:
  "v_status (projr (fst (revertChange quiet_env ''chg-2'' ''mongodb://x'' None orders_world))) = Failed \<and>
   v_message (projr (fst (revertChange quiet_env ''chg-2'' ''mongodb://x'' None orders_world)))
     = ''Cannot drop the collection because it is not empty.'' \<and>
   dbs (snd (revertChange quiet_env ''chg-2'' ''mongodb://x'' None orders_world)) = dbs orders_world \<and>
   audit (snd (revertChange quiet_env ''chg-2'' ''mongodb://x'' None orders_world)) = audit orders_world \<and>
   v_status (projr (fst (revertChange quiet_env ''chg-5'' ''mongodb://x'' None orders_world))) = Reverted \<and>
   dbs (snd (revertChange quiet_env ''chg-5'' ''mongodb://x'' None orders_world))
     (''mongodb://x'', ''D'') ''orders'' = None \<and>
   a_status (audit (snd (revertChange quiet_env ''chg-5'' ''mongodb://x'' None orders_world)) ! 1)
     = Reverted"
proof -
  let ?r0 = "audit_entry ''chg-2'' users_request Applied ''Change applied successfully.''
               (Some (Some (DropCollectionPlan ''users'' True))) 1"
  let ?r1 = "audit_entry ''chg-5'' (users_request\<lparr>q_operation := CreateCollection ''orders'' None\<rparr>)
               Applied ''Change applied successfully.''
               (Some (Some (DropCollectionPlan ''orders'' True))) 3"
  have l0: "latest_entry ''chg-2'' ''mongodb://x'' (audit orders_world) = Some (0, ?r0)"
    by (simp add: orders_world_def scenario_defs latest_entry_def sort_desc_def audit_entry_def)
  have l1: "latest_entry ''chg-5'' ''mongodb://x'' (audit orders_world) = Some (1, ?r1)"
    by (simp add: orders_world_def scenario_defs latest_entry_def sort_desc_def audit_entry_def)
  have o0: "a_operation ?r0 = CreateCollection ''users'' None"
    and o1: "a_operation ?r1 = CreateCollection ''orders'' None"
    by (simp_all add: audit_entry_def scenario_defs)
  have c0: "dbs orders_world (''mongodb://x'', acting_database None ?r0) ''users''
      = Some \<lparr>c_docs = 2, c_indexes = [id_index]\<rparr>"
    and c1: "dbs orders_world (''mongodb://x'', acting_database None ?r1) ''orders''
      = Some \<lparr>c_docs = 0, c_indexes = [id_index]\<rparr>"
    by (simp_all add: orders_world_def acting_database_def audit_entry_def scenario_defs)
  have d: "acting_database None ?r1 = ''D''"
    by (simp add: acting_database_def audit_entry_def scenario_defs)
  have q: "allow_check quiet_env ''mongodb://x'' = None" "\<forall>t. faults quiet_env t = None"
    by (simp_all add: allow_check_def quiet_env_def)
  have len: "length (audit orders_world) = 2"
    by (simp add: orders_world_def)
  from revertChange_createCollection_guard [OF l0 o0 c0, of quiet_env]
    revertChange_createCollection_guard [OF l1 o1 c1, of quiet_env] q d len
  show ?thesis by auto
qed

section \<open>Properties of the batch orchestrator\<close>

text \<open>
  What a stopped batch has called. Let a batch run with \<open>stopOnError\<close> in force and
  simulation off return a batch result whose \<open>i\<close>-th result is failed. Then the status
  is rolled back, \<open>failedAt\<close> is \<open>i\<close>, the results are exactly those of the first
  \<open>i + 1\<close> requests (none of the earlier ones failed), the requests attempted are exactly
  the first \<open>i + 1\<close>, and the calls of the revert engine made are, in reverse order of
  application, exactly one for each result with status applied (change identifier of the
  result, URI and database of the request at that position). This holds for every fault
  pattern of the driver, so a compensation that fails does not stop the others. The
  statement is about the calls: which audit record a call then undoes is the lookup of
  \<open>revertChange\<close> by change identifier.
\<close>

lemma applyBatch_rollback:
  assumes run: "applyBatch e chs opts w = (Inr br, w')"
    and stop: "bo_stopOnError opts \<noteq> Some False" and real: "bo_dryRun opts \<noteq> Some True"
    and fail: "i < length (b_results br)" "r_status (b_results br ! i) = Failed"
  shows "b_status br = RolledBack \<and> b_failedAt br = Some i \<and> length (b_results br) = Suc i \<and>
         (\<forall>j < i. r_status (b_results br ! j) \<noteq> Failed) \<and>
         revert_calls (events w') =
           revert_calls (events w) @ map entry_call (rev (applied_of chs (b_results br))) \<and>
         apply_calls (events w') =
           apply_calls (events w) @ map (\<lambda>c. (q_target c, q_operation c)) (take (Suc i) chs)"
proof -
  let ?rs = "b_results br"
  from run have loop: "batch_loop e (bo_stopOnError opts \<noteq> Some False) (bo_dryRun opts = Some True)
      chs 0 [] [] w = (Inr br, w')"
    by (simp add: applyBatch_def)
  from batch_loop_shape [OF loop] stop real
  have calls: "apply_calls (events w') =
        apply_calls (events w) @ map (\<lambda>c. (q_target c, q_operation c)) (take (length ?rs) chs)"
    and ok: "b_status br = BatchOk \<Longrightarrow> \<forall>r \<in> set ?rs. r_status r \<noteq> Failed"
    and rb: "b_status br = RolledBack \<Longrightarrow>
        ?rs \<noteq> [] \<and> b_failedAt br = Some (length ?rs - 1) \<and>
        (\<forall>r \<in> set (butlast ?rs). r_status r \<noteq> Failed) \<and>
        revert_calls (events w') = revert_calls (events w) @ map entry_call (rev (applied_of chs ?rs))"
    by auto
  from fail have "b_results br ! i \<in> set ?rs" by simp
  with ok fail(2) have st: "b_status br = RolledBack" by (cases "b_status br") auto
  note r = rb [OF st]
  from r have nf: "\<forall>x \<in> set (butlast ?rs). r_status x \<noteq> Failed" by blast
  have i: "i = length ?rs - 1"
  proof (rule ccontr)
    assume "i \<noteq> length ?rs - 1"
    with fail(1) have "i < length (butlast ?rs)" by simp
    then have "butlast ?rs ! i \<in> set (butlast ?rs)" by (rule nth_mem)
    moreover from \<open>i < length (butlast ?rs)\<close> have "butlast ?rs ! i = ?rs ! i"
      by (simp add: nth_butlast)
    ultimately have "?rs ! i \<in> set (butlast ?rs)" by simp
    with nf fail(2) show False by blast
  qed
  have before: "r_status (?rs ! j) \<noteq> Failed" if "j < i" for j
  proof -
    from that i have lt: "j < length (butlast ?rs)" by simp
    then have "butlast ?rs ! j \<in> set (butlast ?rs)" by (rule nth_mem)
    moreover from lt have "butlast ?rs ! j = ?rs ! j" by (simp add: nth_butlast)
    ultimately have "?rs ! j \<in> set (butlast ?rs)" by simp
    with nf show ?thesis by blast
  qed
  from i fail(1) have len: "length ?rs = Suc i" by simp
  from r have fa: "b_failedAt br = Some (length ?rs - 1)"
    and rc: "revert_calls (events w') =
        revert_calls (events w) @ map entry_call (rev (applied_of chs ?rs))"
    by blast+
  from fa len have "b_failedAt br = Some i" by simp
  moreover from calls len have "apply_calls (events w') =
      apply_calls (events w) @ map (\<lambda>c. (q_target c, q_operation c)) (take (Suc i) chs)"
    by simp
  ultimately show ?thesis using st len before rc by blast
qed

text \<open>
  Example: three requests with change identifiers of their own, the second fails on a
  taken index name; the collection created by the first is gone afterwards and the third
  was never attempted.
\<close>

lemma applyBatch_rollback_example:
  "b_status (projr (fst (applyBatch quiet_env [orders_request, clash_request, later_request]
      default_options users_world))) = RolledBack \<and>
   b_failedAt (projr (fst (applyBatch quiet_env [orders_request, clash_request, later_request]
      default_options users_world))) = Some 1 \<and>
   map r_status (b_results (projr (fst (applyBatch quiet_env
      [orders_request, clash_request, later_request] default_options users_world))))
     = [Applied, Failed] \<and>
   revert_calls (events (snd (applyBatch quiet_env [orders_request, clash_request, later_request]
      default_options users_world))) = [(''chg-5'', ''mongodb://x'', Some ''D'')] \<and>
   apply_calls (events (snd (applyBatch quiet_env [orders_request, clash_request, later_request]
      default_options users_world)))
     = [(target_D, CreateCollection ''orders'' None), (target_D, q_operation clash_request)] \<and>
   dbs (snd (applyBatch quiet_env [orders_request, clash_request, later_request]
      default_options users_world)) (''mongodb://x'', ''D'') ''orders'' = None"
proof -
  let ?chs = "[orders_request, clash_request, later_request]"
  obtain br w' where run: "applyBatch quiet_env ?chs default_options users_world = (Inr br, w')"
    and rs: "map r_status (b_results br) = [Applied, Failed]"
    and ids: "map r_changeId (b_results br) = [''chg-5'', ''chg-3'']"
    and gone: "dbs w' (''mongodb://x'', ''D'') ''orders'' = None"
    by (simp add: run_defs)
  have o: "bo_stopOnError default_options \<noteq> Some False" "bo_dryRun default_options \<noteq> Some True"
    by (simp_all add: default_options_def)
  from rs have len: "length (b_results br) = 2" by (metis length_map length_Cons list.size(3) numeral_2_eq_2)
  from rs len have f: "1 < length (b_results br)" "r_status (b_results br ! 1) = Failed"
    by (simp_all add: nth_map [symmetric] del: One_nat_def)
  have ev: "events users_world = []" by (simp add: scenario_defs)
  obtain r0 r1 where br: "b_results br = [r0, r1]"
    using len by (metis (no_types) length_0_conv length_Suc_conv numeral_2_eq_2)
  with rs ids have "applied_of ?chs (b_results br) = [(''chg-5'', target_D)]"
    by (simp add: applied_of_def orders_request_def scenario_defs)
  with applyBatch_rollback [OF run o f] ev rs gone run show ?thesis
    by (simp add: entry_call_def orders_request_def scenario_defs)
qed

text \<open>
  What a batch calls at all. A simulated batch never calls the revert engine, leaves the
  databases and the audit collection as they were, and any batch result it returns has
  status ok without \<open>failedAt\<close> and one result per request. In every batch run (simulated or not), a run
  that ends in an exception has called the revert engine for nothing, and every call of
  the revert engine made by a run that returns belongs to a position whose result has
  status applied: no call is made for a skipped (or failed) result.
\<close>

lemma applyBatch_calls:
  "(bo_dryRun opts = Some True \<longrightarrow>
      revert_calls (events (snd (applyBatch e chs opts w))) = revert_calls (events w) \<and>
      dbs (snd (applyBatch e chs opts w)) = dbs w \<and>
      audit (snd (applyBatch e chs opts w)) = audit w \<and>
      (\<forall>br. fst (applyBatch e chs opts w) = Inr br \<longrightarrow>
          b_status br = BatchOk \<and> b_failedAt br = None \<and> length (b_results br) = length chs)) \<and>
   (\<forall>x. fst (applyBatch e chs opts w) = Inl x \<longrightarrow>
      revert_calls (events (snd (applyBatch e chs opts w))) = revert_calls (events w)) \<and>
   (\<forall>br. fst (applyBatch e chs opts w) = Inr br \<longrightarrow>
      (\<exists>calls. revert_calls (events (snd (applyBatch e chs opts w))) = revert_calls (events w) @ calls \<and>
          (\<forall>call \<in> set calls. \<exists>j. j < length (b_results br) \<and> j < length chs \<and>
              r_status (b_results br ! j) = Applied \<and>
              call = entry_call (r_changeId (b_results br ! j), q_target (chs ! j)))))"
proof -
  obtain res w' where run: "applyBatch e chs opts w = (res, w')"
    by (cases "applyBatch e chs opts w")
  then have loop: "batch_loop e (bo_stopOnError opts \<noteq> Some False) (bo_dryRun opts = Some True)
      chs 0 [] [] w = (res, w')"
    by (simp add: applyBatch_def)
  have dry: "revert_calls (events w') = revert_calls (events w) \<and> dbs w' = dbs w \<and>
      audit w' = audit w \<and>
      (\<forall>br. res = Inr br \<longrightarrow>
          b_status br = BatchOk \<and> b_failedAt br = None \<and> length (b_results br) = length chs)"
    if d: "bo_dryRun opts = Some True"
  proof -
    from loop d have l: "batch_loop e (bo_stopOnError opts \<noteq> Some False) True chs 0 [] [] w = (res, w')"
      by simp
    have "length (b_results br) = length chs" if "res = Inr br" for br
      using batch_loop_shape [OF l [unfolded that]] batch_loop_dry [OF l] that by auto
    with batch_loop_dry [OF l] show ?thesis by simp
  qed
  have thrown: "revert_calls (events w') = revert_calls (events w)" if "res = Inl x" for x
    using batch_loop_thrown [OF loop [unfolded that]] .
  have returned: "\<exists>calls. revert_calls (events w') = revert_calls (events w) @ calls \<and>
          (\<forall>call \<in> set calls. \<exists>j. j < length (b_results br) \<and> j < length chs \<and>
              r_status (b_results br ! j) = Applied \<and>
              call = entry_call (r_changeId (b_results br ! j), q_target (chs ! j)))"
    if "res = Inr br" for br
  proof (cases "b_status br")
    case BatchOk
    with batch_loop_shape [OF loop [unfolded that]]
    have "revert_calls (events w') = revert_calls (events w) @ []" by auto
    then show ?thesis by (intro exI [of _ "[]"]) simp
  next
    case RolledBack
    with batch_loop_shape [OF loop [unfolded that]]
    have c: "revert_calls (events w') =
        revert_calls (events w) @ map entry_call (rev (applied_of chs (b_results br)))"
      by auto
    show ?thesis
      by (intro exI [of _ "map entry_call (rev (applied_of chs (b_results br)))"])
        (use c in \<open>auto dest!: applied_of_mem\<close>)
  qed
  from run dry thrown returned show ?thesis by simp
qed

text \<open>
  Example: a batch with change identifiers of their own whose results are skipped,
  applied, failed calls the revert engine for the applied change only; the simulated
  batch reports the failure among its results and calls it for nothing.
\<close>

lemma applyBatch_calls_example:
  "map r_status (b_results (projr (fst (applyBatch quiet_env
      [users_request, orders_request, clash_request] default_options users_world))))
     = [Skipped, Applied, Failed] \<and>
   revert_calls (events (snd (applyBatch quiet_env [users_request, orders_request, clash_request]
      default_options users_world))) = [(''chg-5'', ''mongodb://x'', Some ''D'')] \<and>
   b_status (projr (fst (applyBatch quiet_env [orders_request, clash_request, later_request]
      \<lparr>bo_stopOnError = None, bo_dryRun = Some True\<rparr> users_world))) = BatchOk \<and>
   map r_status (b_results (projr (fst (applyBatch quiet_env
      [orders_request, clash_request, later_request]
      \<lparr>bo_stopOnError = None, bo_dryRun = Some True\<rparr> users_world))))
     = [Applied, Failed, Applied] \<and>
   revert_calls (events (snd (applyBatch quiet_env [orders_request, clash_request, later_request]
      \<lparr>bo_stopOnError = None, bo_dryRun = Some True\<rparr> users_world))) = [] \<and>
   dbs (snd (applyBatch quiet_env [orders_request, clash_request, later_request]
      \<lparr>bo_stopOnError = None, bo_dryRun = Some True\<rparr> users_world)) = dbs users_world"
proof -
  have a: "map r_status (b_results (projr (fst (applyBatch quiet_env
      [users_request, orders_request, clash_request] default_options users_world))))
     = [Skipped, Applied, Failed]"
    "revert_calls (events (snd (applyBatch quiet_env [users_request, orders_request, clash_request]
      default_options users_world))) = [(''chg-5'', ''mongodb://x'', Some ''D'')]"
    by (simp_all add: run_defs)
  have b: "map r_status (b_results (projr (fst (applyBatch quiet_env
      [orders_request, clash_request, later_request]
      \<lparr>bo_stopOnError = None, bo_dryRun = Some True\<rparr> users_world))))
     = [Applied, Failed, Applied]"
    "\<exists>br. fst (applyBatch quiet_env [orders_request, clash_request, later_request]
      \<lparr>bo_stopOnError = None, bo_dryRun = Some True\<rparr> users_world) = Inr br"
    by (simp_all add: run_defs)
  have ev: "revert_calls (events users_world) = []" by (simp add: scenario_defs)
  from applyBatch_calls [of "\<lparr>bo_stopOnError = None, bo_dryRun = Some True\<rparr>"
      quiet_env "[orders_request, clash_request, later_request]" users_world] a b ev
  show ?thesis by auto
qed

text \<open>
  C2, at the failing input. A batch of three requests, not simulated, \<open>stopOnError\<close> by
  default: the first two carry the same change identifier, the first creates \<open>fresh\<close>
  (applied), the second finds \<open>legacy\<close> in place (skipped), the third fails. The batch
  is rolled back at index 2 with one call of the revert engine, for the applied change.
  That call looks up the newest audit record of the identifier, which is the skipped
  one: afterwards the collection that the applied change created is still there and its
  audit record still says applied.
\<close>

theorem applyBatch_repeated_id_keeps_applied:
  "map r_status (b_results (projr (fst (applyBatch quiet_env
      [fresh_request, legacy_request, clash_request] default_options legacy_world))))
     = [Applied, Skipped, Failed] \<and>
   b_status (projr (fst (applyBatch quiet_env
      [fresh_request, legacy_request, clash_request] default_options legacy_world))) = RolledBack \<and>
   b_failedAt (projr (fst (applyBatch quiet_env
      [fresh_request, legacy_request, clash_request] default_options legacy_world))) = Some 2 \<and>
   revert_calls (events (snd (applyBatch quiet_env
      [fresh_request, legacy_request, clash_request] default_options legacy_world)))
     = [(''dup'', ''mongodb://x'', Some ''D'')] \<and>
   dbs (snd (applyBatch quiet_env
      [fresh_request, legacy_request, clash_request] default_options legacy_world))
      (''mongodb://x'', ''D'') ''fresh'' = Some new_collection \<and>
   a_status (audit (snd (applyBatch quiet_env
      [fresh_request, legacy_request, clash_request] default_options legacy_world)) ! 0) = Applied"
  by (simp add: run_defs legacy_world_def fresh_request_def legacy_request_def)

text \<open>
  C8, at the failing input. In the same batch the change whose result was skipped is the
  one that is compensated: \<open>legacy\<close>, which existed before the batch and which the batch
  did not touch, is dropped, and the audit record of the skipped change is marked
  reverted.
\<close>

theorem applyBatch_repeated_id_reverts_skipped:
  "map r_status (b_results (projr (fst (applyBatch quiet_env
      [fresh_request, legacy_request, clash_request] default_options legacy_world))))
     = [Applied, Skipped, Failed] \<and>
   dbs legacy_world (''mongodb://x'', ''D'') ''legacy'' = Some \<lparr>c_docs = 0, c_indexes = [id_index]\<rparr> \<and>
   dbs (snd (applyBatch quiet_env
      [fresh_request, legacy_request, clash_request] default_options legacy_world))
      (''mongodb://x'', ''D'') ''legacy'' = None \<and>
   map a_status (audit (snd (applyBatch quiet_env
      [fresh_request, legacy_request, clash_request] default_options legacy_world)))
     = [Applied, Reverted, Failed] \<and>
   map a_operation (audit (snd (applyBatch quiet_env
      [fresh_request, legacy_request, clash_request] default_options legacy_world)))
     = [CreateCollection ''fresh'' None, CreateCollection ''legacy'' None, q_operation clash_request]"
  by (simp add: run_defs legacy_world_def fresh_request_def legacy_request_def)

section \<open>Properties of listing\<close>

text \<open>
  What holds of every page that \<open>listChanges\<close> returns: the items are ordered newest
  first by creation time; \<open>total\<close> is the number of audit records matching the filter
  and the items are among them; without a status filter (absent or empty) no item is
  reverted; with a status filter every item's status is one of the comma-separated,
  trimmed names, which replace the default: with \<open>reverted\<close> as the filter (and no
  \<open>since\<close>) the total counts exactly the reverted records of the URI. The page has at
  most 500 items when the limit is absent or at least \<open>-500\<close>; below that the bound is
  the single batch of the server. When the target is allowed, the skip is not negative
  and the driver calls succeed, a page is returned.
\<close>

lemma listChanges_page:
  "(\<forall>pg w'. listChanges e u q w = (Inr pg, w') \<longrightarrow>
      ((\<forall>n. lq_limit q = Some n \<longrightarrow> - 500 \<le> n) \<or> firstBatch e \<le> 500 \<longrightarrow>
         length (p_items pg) \<le> 500) \<and>
      sorted_wrt (\<lambda>a b. a_createdAt b \<le> a_createdAt a) (p_items pg) \<and>
      p_total pg = length (filter (query_filter e u q) (audit w)) \<and>
      set (p_items pg) \<subseteq> set (filter (query_filter e u q) (audit w)) \<and>
      (lq_status q = None \<or> lq_status q = Some [] \<longrightarrow>
         (\<forall>r \<in> set (p_items pg). a_status r \<noteq> Reverted)) \<and>
      (\<forall>st. lq_status q = Some st \<and> st \<noteq> [] \<longrightarrow>
         (\<forall>r \<in> set (p_items pg). js (status_str (a_status r)) \<in> set (status_list st))) \<and>
      (lq_status q = Some (js ''reverted'') \<and> lq_since q = None \<longrightarrow>
         p_total pg = length (filter (\<lambda>r. t_uri (a_target r) = u \<and> a_status r = Reverted) (audit w)))) \<and>
   (allow_check e u = None \<and> (\<forall>t. faults e t = None) \<and> (\<forall>n. lq_skip q = Some n \<longrightarrow> 0 \<le> n) \<longrightarrow>
      (\<exists>pg w'. listChanges e u q w = (Inr pg, w')))"
proof -
  have page: "((\<forall>n. lq_limit q = Some n \<longrightarrow> - 500 \<le> n) \<or> firstBatch e \<le> 500 \<longrightarrow>
         length (p_items pg) \<le> 500) \<and>
      sorted_wrt (\<lambda>a b. a_createdAt b \<le> a_createdAt a) (p_items pg) \<and>
      p_total pg = length (filter (query_filter e u q) (audit w)) \<and>
      set (p_items pg) \<subseteq> set (filter (query_filter e u q) (audit w)) \<and>
      (lq_status q = None \<or> lq_status q = Some [] \<longrightarrow>
         (\<forall>r \<in> set (p_items pg). a_status r \<noteq> Reverted)) \<and>
      (\<forall>st. lq_status q = Some st \<and> st \<noteq> [] \<longrightarrow>
         (\<forall>r \<in> set (p_items pg). js (status_str (a_status r)) \<in> set (status_list st))) \<and>
      (lq_status q = Some (js ''reverted'') \<and> lq_since q = None \<longrightarrow>
         p_total pg = length (filter (\<lambda>r. t_uri (a_target r) = u \<and> a_status r = Reverted) (audit w)))"
    if run: "listChanges e u q w = (Inr pg, w')" for pg w'
  proof -
    define l :: int
      where "l = min (case lq_limit q of None \<Rightarrow> 100 | Some n \<Rightarrow> if n = 0 then 100 else n) 500"
    let ?sk = "nat (case lq_skip q of None \<Rightarrow> 0 | Some n \<Rightarrow> n)"
    let ?m = "filter (query_filter e u q) (audit w)"
    from listChanges_Inr [OF run]
    have items: "p_items pg = cursor_limit e l (drop ?sk (sort_desc a_createdAt ?m))"
      and total: "p_total pg = length ?m" by (simp_all add: l_def)
    have lim: "l \<noteq> 0" "l \<le> 500" by (auto simp: l_def split: option.splits)
    have len: "length (p_items pg) \<le> 500"
      if h: "(\<forall>n. lq_limit q = Some n \<longrightarrow> - 500 \<le> n) \<or> firstBatch e \<le> 500"
    proof (cases "0 < l")
      case True
      from lim(2) have "nat l \<le> 500" by simp
      with cursor_limit_props(2) [OF True] show ?thesis unfolding items
        by (rule order_trans)
    next
      case False
      with lim(1) have neg: "l < 0" by simp
      have "- 500 \<le> l \<or> firstBatch e \<le> 500"
        using h by (auto simp: l_def split: option.splits)
      then have "min (nat (- l)) (firstBatch e) \<le> 500" by auto
      with cursor_limit_props(3) [OF neg] show ?thesis unfolding items
        by (rule order_trans)
    qed
    have srt: "sorted_wrt (\<lambda>a b. a_createdAt b \<le> a_createdAt a) (p_items pg)"
      unfolding items
      by (intro cursor_limit_props(4) sorted_wrt_drop sort_desc_sorted)
    have sub: "set (p_items pg) \<subseteq> set ?m"
    proof -
      have "set (p_items pg) \<subseteq> set (drop ?sk (sort_desc a_createdAt ?m))"
        unfolding items by (rule cursor_limit_props(1))
      also have "\<dots> \<subseteq> set (sort_desc a_createdAt ?m)" by (rule set_drop_subset)
      also have "\<dots> = set ?m" by simp
      finally show ?thesis .
    qed
    have flt: "query_filter e u q r" if "r \<in> set (p_items pg)" for r
    proof -
      from that sub have "r \<in> set ?m" by (rule subsetD [rotated])
      then show ?thesis by simp
    qed
    have dflt: "\<forall>r \<in> set (p_items pg). a_status r \<noteq> Reverted"
      if "lq_status q = None \<or> lq_status q = Some []"
      using that flt by (auto simp: query_filter_def)
    have expl: "\<forall>r \<in> set (p_items pg). js (status_str (a_status r)) \<in> set (status_list st)"
      if "lq_status q = Some st \<and> st \<noteq> []" for st
      using that flt by (auto simp: query_filter_def)
    have rev: "p_total pg = length (filter (\<lambda>r. t_uri (a_target r) = u \<and> a_status r = Reverted) (audit w))"
      if h: "lq_status q = Some (js ''reverted'') \<and> lq_since q = None"
    proof -
      have ne: "js ''reverted'' \<noteq> []" by (simp add: js_def)
      from h ne have "query_filter e u q r = (t_uri (a_target r) = u \<and> a_status r = Reverted)" for r
        by (simp add: query_filter_def status_list_reverted status_str_reverted)
      then have "query_filter e u q = (\<lambda>r. t_uri (a_target r) = u \<and> a_status r = Reverted)"
        by (rule ext)
      with total show ?thesis by simp
    qed
    from len srt total sub dflt expl rev show ?thesis by blast
  qed
  from page listChanges_quiet [of e u q w] show ?thesis by blast
qed

text \<open>
  Examples: the default listing leaves the reverted record out, \<open>status=reverted\<close>
  returns it, also when followed by a no-break space, and a limit of one returns the
  newest of two matches with total two.
\<close>

lemma listChanges_page_examples:
  "map a_changeId (p_items (projr (fst (listChanges quiet_env ''mongodb://x'' no_query history_world))))
     = [''chg-3'', ''chg-2''] \<and>
   p_total (projr (fst (listChanges quiet_env ''mongodb://x'' no_query history_world))) = 2 \<and>
   map a_changeId (p_items (projr (fst (listChanges quiet_env ''mongodb://x''
      (no_query\<lparr>lq_status := Some (js ''reverted'')\<rparr>) history_world)))) = [''chg-1''] \<and>
   map a_changeId (p_items (projr (fst (listChanges quiet_env ''mongodb://x''
      (no_query\<lparr>lq_status := Some (js ''reverted'' @ [0xA0])\<rparr>) history_world)))) = [''chg-1''] \<and>
   map a_changeId (p_items (projr (fst (listChanges quiet_env ''mongodb://x''
      (no_query\<lparr>lq_status := Some (js ''failed, reverted''), lq_limit := Some 1\<rparr>) history_world))))
     = [''chg-3''] \<and>
   p_total (projr (fst (listChanges quiet_env ''mongodb://x''
      (no_query\<lparr>lq_status := Some (js ''failed, reverted''), lq_limit := Some 1\<rparr>) history_world))) = 2"
  by (simp add: list_defs history_world_def no_query_def scenario_defs exec_defs)


end
